theory Spec2Isabelle
  imports Main "HOL-Library.Word"
begin

section \<open>The payment verifier of \<^verbatim>\<open>src/controllers/paymentController.js\<close>\<close>

text \<open>
  The controller decodes a client-signed transaction, looks for an earlier payment record,
  validates the token-transfer instruction, simulates, submits and confirms the transaction,
  reads the balance changes back from the chain and upserts a payment record.
  The embedding keeps the order of the source. The RPC node, the transaction decoder and
  the Mongoose collection are external: their answers are the fields of a \<open>world\<close>
  record, one world per call of \<open>verifyPayment\<close>, and the collection is a list of
  documents that is passed through the call together with the log of the external calls made.
  A thrown value is an Error object with its message, \<^verbatim>\<open>null\<close> or \<^verbatim>\<open>undefined\<close>, or
  another value; the configuration read from the environment is taken as parsed. Console
  output is left out, except where it can throw.
\<close>

subsection \<open>Bytes, strings and the two signature encodings\<close>

type_synonym byte = "8 word"

text \<open>\<^verbatim>\<open>String.prototype.includes\<close>: the argument occurs as a contiguous piece.\<close>

fun starts_with :: "string \<Rightarrow> string \<Rightarrow> bool" where
  "starts_with s [] = True"
| "starts_with [] (p # ps) = False"
| "starts_with (c # cs) (p # ps) = (c = p \<and> starts_with cs ps)"

fun str_includes :: "string \<Rightarrow> string \<Rightarrow> bool" where
  "str_includes [] sub = starts_with [] sub"
| "str_includes (c # cs) sub = (starts_with (c # cs) sub \<or> str_includes cs sub)"

text \<open>
  \<^verbatim>\<open>Buffer.prototype.toString('base64')\<close>: three bytes give four characters of the
  standard alphabet, and a last group of one or two bytes is padded with \<^verbatim>\<open>=\<close>.
\<close>

definition base64_alphabet :: string where
  "base64_alphabet = ''ABCDEFGHIJKLMNOPQRSTUVWXYZabcdefghijklmnopqrstuvwxyz0123456789+/''"

definition base64_char :: "nat \<Rightarrow> char" where
  "base64_char i = base64_alphabet ! (i mod 64)"

fun base64 :: "byte list \<Rightarrow> string" where
  "base64 [] = []"
| "base64 [a] =
     [base64_char (unat a div 4), base64_char ((unat a mod 4) * 16), CHR ''='', CHR ''='']"
| "base64 [a, b] =
     [base64_char (unat a div 4), base64_char ((unat a mod 4) * 16 + unat b div 16),
      base64_char ((unat b mod 16) * 4), CHR ''='']"
| "base64 (a # b # c # rest) =
     [base64_char (unat a div 4), base64_char ((unat a mod 4) * 16 + unat b div 16),
      base64_char ((unat b mod 16) * 4 + unat c div 64), base64_char (unat c mod 64)]
     @ base64 rest"

text \<open>
  \<^verbatim>\<open>bs58.encode\<close>: every leading zero byte gives the character \<^verbatim>\<open>1\<close>, and the
  rest is the big-endian number written in base 58 over the Bitcoin alphabet.
\<close>

definition base58_alphabet :: string where
  "base58_alphabet = ''123456789ABCDEFGHJKLMNPQRSTUVWXYZabcdefghijkmnopqrstuvwxyz''"

definition base58_char :: "nat \<Rightarrow> char" where
  "base58_char i = base58_alphabet ! (i mod 58)"

definition be_nat :: "byte list \<Rightarrow> nat" where
  "be_nat bs = foldl (\<lambda>acc b. acc * 256 + unat b) 0 bs"

fun digits58 :: "nat \<Rightarrow> nat list" where
  "digits58 n = (if n = 0 then [] else digits58 (n div 58) @ [n mod 58])"

declare digits58.simps [simp del]

definition bs58_encode :: "byte list \<Rightarrow> string" where
  "bs58_encode bs =
     replicate (length (takeWhile (\<lambda>b. b = 0) bs)) (CHR ''1'')
     @ map base58_char (digits58 (be_nat bs))"

subsection \<open>JavaScript numbers\<close>

text \<open>
  \<^verbatim>\<open>Number(x)\<close> of an integer (a \<^verbatim>\<open>BigInt\<close> or a decimal string) is the nearest
  double, ties to the even significand; the difference of two doubles is rounded the same
  way. Every quantity here is an integer below \<open>2 ^ 65\<close> in size, so the double is an
  integer again and the rounding is a function on \<open>int\<close>: exact below \<open>2 ^ 53\<close>, and
  to 53 significant bits above.
\<close>

fun bit_len :: "nat \<Rightarrow> nat" where
  "bit_len n = (if n = 0 then 0 else Suc (bit_len (n div 2)))"

declare bit_len.simps [simp del]

definition round53 :: "nat \<Rightarrow> nat" where
  "round53 n =
     (if n < 2 ^ 53 then n
      else let e = bit_len n - 53; q = n div 2 ^ e; r = n mod 2 ^ e; h = 2 ^ (e - 1)
           in if h < r \<or> (r = h \<and> odd q) then (q + 1) * 2 ^ e else q * 2 ^ e)"

definition Number :: "int \<Rightarrow> int" where
  "Number x = (if x < 0 then - int (round53 (nat (- x))) else int (round53 (nat x)))"

text \<open>
  \<^verbatim>\<open>buf.readBigUInt64LE(offset)\<close>: the eight bytes from \<open>offset\<close> on, least significant
  first; a \<^verbatim>\<open>RangeError\<close> when the buffer has fewer than \<open>offset + 8\<close> bytes.
\<close>

definition le_nat :: "byte list \<Rightarrow> nat" where
  "le_nat bs = foldr (\<lambda>b acc. unat b + 256 * acc) bs 0"

definition readBigUInt64LE :: "byte list \<Rightarrow> nat \<Rightarrow> nat option" where
  "readBigUInt64LE buf offset =
     (if offset + 8 \<le> length buf then Some (le_nat (take 8 (drop offset buf))) else None)"

subsection \<open>Transactions, payment documents and the configuration\<close>

text \<open>
  A public key is kept in its base-58 text, the form the controller compares and stores.
  \<open>TOKEN_PROGRAM_ID\<close> is the constant the controller imports from the SPL token library.
\<close>

type_synonym pubkey = string

definition TOKEN_PROGRAM_ID :: pubkey where
  "TOKEN_PROGRAM_ID = ''TokenkegQfeZyiNwAJbNbGKPFXCWuBvf9Ss623VQ5DA''"

record instruction =
  programId :: pubkey
  keys :: "pubkey list"
  data :: "byte list"

text \<open>
  A decoded transaction: each entry of \<open>signatures\<close> is the \<^verbatim>\<open>signature\<close> field of a
  signature pair, \<open>None\<close> for \<^verbatim>\<open>null\<close> (an unsigned slot).
\<close>

record transaction =
  signatures :: "byte list option list"
  instructions :: "instruction list"

datatype status = Pending | Confirmed | Failed

text \<open>
  The fields of the \<^verbatim>\<open>Payment\<close> schema that the controller writes. \<open>senderWallet\<close> is
  \<open>None\<close> for \<^verbatim>\<open>null\<close>; \<open>blockTime\<close>, \<open>slot\<close> and \<open>verifiedAt\<close> are \<open>None\<close> while unset.
\<close>

record payment =
  userId :: "string option"
  transactionSignature :: string
  amount :: int
  tokenMint :: string
  senderWallet :: "string option"
  recipientWallet :: string
  endpoint :: string
  status :: status
  blockTime :: "nat option"
  slot :: "nat option"
  network :: string
  verifiedAt :: "nat option"

text \<open>The fields the constructor reads from the environment.\<close>

record config =
  paymentWallet :: string
  requiredAmount :: int
  cfg_tokenMint :: string
  cfg_network :: string

text \<open>
  One constructor for each message the controller can report. \<open>External\<close> carries the
  message of an error thrown by a library (the decoder, the database driver); the other
  string arguments are the text the source splices into its own message. \<open>MessageOfNull\<close>
  is the \<^verbatim>\<open>TypeError\<close> of the runtime for reading a property of \<^verbatim>\<open>null\<close> or
  \<^verbatim>\<open>undefined\<close>.
\<close>

datatype error =
    External string
  | InvalidSignature
  | PreviouslyFailed
  | NoInstructions
  | NoTransferInstruction
  | InsufficientPayment int int
  | ValidationFailed
  | SimulationFailed string
  | SimulationError string
  | CannotExtractSignature
  | SubmissionFailed string
  | TransactionFailed string
  | ConfirmationError string
  | TransactionNotFound
  | NoMatchingTransfer
  | InsufficientTransferred int int
  | OnChainVerificationFailed string
  | MessageOfNull

text \<open>
  What a \<^verbatim>\<open>throw\<close> can carry: an Error object, the value \<^verbatim>\<open>null\<close> or
  \<^verbatim>\<open>undefined\<close>, or another value, which has no \<^verbatim>\<open>message\<close>. A library throws
  an Error object with its message (\<open>string thrown\<close>); inside the controller the Error
  objects are the errors above (\<open>error thrown\<close>).
\<close>

datatype 'e thrown = ErrorObject 'e | NullOrUndefined | OtherValue

text \<open>A value thrown by a library, passed on as it is.\<close>

definition library_error :: "string thrown \<Rightarrow> error thrown" where
  "library_error x =
     (case x of
        ErrorObject m \<Rightarrow> ErrorObject (External m)
      | NullOrUndefined \<Rightarrow> NullOrUndefined
      | OtherValue \<Rightarrow> OtherValue)"

text \<open>
  \<^verbatim>\<open>`... ${error.message}`\<close> in a handler: the message of an Error object, the text
  \<^verbatim>\<open>undefined\<close> for a value without one, and a \<^verbatim>\<open>TypeError\<close> of the runtime
  (\<open>MessageOfNull\<close>), thrown by the handler itself, for \<^verbatim>\<open>null\<close> and \<^verbatim>\<open>undefined\<close>.
\<close>

definition message_of :: "string thrown \<Rightarrow> error + string" where
  "message_of x =
     (case x of
        ErrorObject m \<Rightarrow> Inr m
      | NullOrUndefined \<Rightarrow> Inl MessageOfNull
      | OtherValue \<Rightarrow> Inr ''undefined'')"

subsection \<open>Static validation of the instruction list\<close>

text \<open>
  \<^verbatim>\<open>validateTransactionInstructions\<close>: the loop stops at the first instruction of the
  token program whose first data byte is 3. Reading the amount throws when the data is
  shorter than nine bytes, and the function's own handler turns that into a rejection.
  The sender stays \<^verbatim>\<open>null\<close> unless the instruction has at least two account keys.
\<close>

definition is_transfer :: "instruction \<Rightarrow> bool" where
  "is_transfer i =
     (programId i = TOKEN_PROGRAM_ID \<and> (case data i of [] \<Rightarrow> False | b # _ \<Rightarrow> b = 3))"

definition senderTokenAccount :: "instruction \<Rightarrow> pubkey option" where
  "senderTokenAccount i = (if 2 \<le> length (keys i) then Some (hd (keys i)) else None)"

definition validateTransactionInstructions ::
  "config \<Rightarrow> transaction \<Rightarrow> error + (int \<times> pubkey option)" where
  "validateTransactionInstructions cfg t =
     (if instructions t = [] then Inl NoInstructions
      else case find is_transfer (instructions t) of
        None \<Rightarrow> Inl NoTransferInstruction
      | Some i \<Rightarrow>
          (case readBigUInt64LE (data i) 1 of
            None \<Rightarrow> Inl ValidationFailed
          | Some n \<Rightarrow>
              let amount = Number (int n) in
              if amount < requiredAmount cfg
              then Inl (InsufficientPayment (requiredAmount cfg) amount)
              else Inr (amount, senderTokenAccount i)))"

subsection \<open>The external services and the store\<close>

text \<open>
  The balance entries and the metadata of a finalized transaction as the RPC node returns
  them. \<open>tb_amount\<close> is the decimal string \<^verbatim>\<open>uiTokenAmount.amount\<close> read as a number;
  \<open>owner\<close> is optional in the node's answer.
\<close>

record token_balance =
  accountIndex :: nat
  tb_amount :: nat
  owner :: "string option"
  mint :: string

record tx_meta =
  err :: "string option"
  preTokenBalances :: "token_balance list option"
  postTokenBalances :: "token_balance list option"
  logMessages :: "string list option"

record tx_details =
  td_blockTime :: "nat option"
  td_slot :: nat
  meta :: "tx_meta option"

text \<open>
  What the outside answers during one call of \<open>verifyPayment\<close>. A library call that throws
  is \<open>Inl\<close> of the thrown value. \<open>findOne_fault\<close> and \<open>findOneAndUpdate_fault\<close> are the
  value the database driver throws, if it does; \<open>now\<close> is \<^verbatim>\<open>new Date()\<close>.
\<close>

record world =
  decode :: "string \<Rightarrow> string thrown + transaction"
  findOne_fault :: "string thrown option"
  rpc_simulateTransaction :: "transaction \<Rightarrow> string thrown + string option"
  rpc_sendRawTransaction :: "string \<Rightarrow> string thrown + string"
  rpc_confirmTransaction :: "string \<Rightarrow> string thrown + string option"
  rpc_getTransaction :: "string \<Rightarrow> string thrown + tx_details option"
  findOneAndUpdate_fault :: "string thrown option"
  now :: nat

text \<open>
  The object handed to \<^verbatim>\<open>createPaymentRecord\<close>. The write of a confirmed payment also
  carries \<^verbatim>\<open>blockTime\<close>, \<^verbatim>\<open>slot\<close> and \<^verbatim>\<open>verifiedAt\<close> (\<open>pd_chain\<close>); the write of a
  failed one does not, and an update then leaves those fields of the document alone.
\<close>

record paymentData =
  pd_userId :: "string option"
  pd_transactionSignature :: string
  pd_amount :: int
  pd_tokenMint :: string
  pd_senderWallet :: "string option"
  pd_recipientWallet :: string
  pd_endpoint :: string
  pd_status :: status
  pd_network :: string
  pd_chain :: "(nat option \<times> nat \<times> nat) option"

text \<open>The external calls a run makes, in order, and the collection of payment documents.\<close>

datatype event =
    FindOne string
  | Simulate
  | SendRaw
  | Confirm string
  | GetTransaction string
  | FindOneAndUpdate paymentData

record store =
  payments :: "payment list"
  calls :: "event list"

definition emit :: "event \<Rightarrow> store \<Rightarrow> store" where
  "emit ev s = s\<lparr>calls := calls s @ [ev]\<rparr>"

text \<open>\<^verbatim>\<open>Payment.findOne({ transactionSignature: k })\<close>: the first document with that key.\<close>

definition Payment_findOne ::
  "world \<Rightarrow> string \<Rightarrow> store \<Rightarrow> (error thrown + payment option) \<times> store" where
  "Payment_findOne w k s =
     (case findOne_fault w of
        Some x \<Rightarrow> (Inl (library_error x), emit (FindOne k) s)
      | None \<Rightarrow> (Inr (find (\<lambda>p. transactionSignature p = k) (payments s)), emit (FindOne k) s))"

definition apply_update :: "paymentData \<Rightarrow> payment \<Rightarrow> payment" where
  "apply_update pd p =
     \<lparr>userId = pd_userId pd, transactionSignature = pd_transactionSignature pd,
      amount = pd_amount pd, tokenMint = pd_tokenMint pd, senderWallet = pd_senderWallet pd,
      recipientWallet = pd_recipientWallet pd, endpoint = pd_endpoint pd,
      status = pd_status pd,
      blockTime = (case pd_chain pd of None \<Rightarrow> blockTime p | Some (bt, sl, va) \<Rightarrow> bt),
      slot = (case pd_chain pd of None \<Rightarrow> slot p | Some (bt, sl, va) \<Rightarrow> Some sl),
      network = pd_network pd,
      verifiedAt = (case pd_chain pd of None \<Rightarrow> verifiedAt p | Some (bt, sl, va) \<Rightarrow> Some va)\<rparr>"

definition new_document :: "paymentData \<Rightarrow> payment" where
  "new_document pd =
     \<lparr>userId = pd_userId pd, transactionSignature = pd_transactionSignature pd,
      amount = pd_amount pd, tokenMint = pd_tokenMint pd, senderWallet = pd_senderWallet pd,
      recipientWallet = pd_recipientWallet pd, endpoint = pd_endpoint pd,
      status = pd_status pd,
      blockTime = (case pd_chain pd of None \<Rightarrow> None | Some (bt, sl, va) \<Rightarrow> bt),
      slot = (case pd_chain pd of None \<Rightarrow> None | Some (bt, sl, va) \<Rightarrow> Some sl),
      network = pd_network pd,
      verifiedAt = (case pd_chain pd of None \<Rightarrow> None | Some (bt, sl, va) \<Rightarrow> Some va)\<rparr>"

text \<open>
  \<^verbatim>\<open>findOneAndUpdate(filter, paymentData, { upsert: true, new: true })\<close>: the first
  document with the key is updated, or a new one is inserted when there is none; the
  document after the write is returned. \<^verbatim>\<open>createPaymentRecord\<close> throws again what the
  driver throws.
\<close>

fun upsert :: "paymentData \<Rightarrow> payment list \<Rightarrow> payment \<times> payment list" where
  "upsert pd [] = (new_document pd, [new_document pd])"
| "upsert pd (p # ps) =
     (if transactionSignature p = pd_transactionSignature pd
      then (apply_update pd p, apply_update pd p # ps)
      else (fst (upsert pd ps), p # snd (upsert pd ps)))"

definition createPaymentRecord ::
  "world \<Rightarrow> paymentData \<Rightarrow> store \<Rightarrow> (error thrown + payment) \<times> store" where
  "createPaymentRecord w pd s =
     (let s' = emit (FindOneAndUpdate pd) s in
      case findOneAndUpdate_fault w of
        Some x \<Rightarrow> (Inl (library_error x), s')
      | None \<Rightarrow> (Inr (fst (upsert pd (payments s'))), s'\<lparr>payments := snd (upsert pd (payments s'))\<rparr>))"

subsection \<open>Simulation, submission and confirmation\<close>

text \<open>
  \<^verbatim>\<open>simulateTransaction\<close> with step 5: the error that ends the call when the simulation
  does not pass. The method returns its own message, which step 5 throws, or its handler
  throws while reading the message; either way an Error object leaves the step.
\<close>

definition simulateTransaction :: "world \<Rightarrow> transaction \<Rightarrow> store \<Rightarrow> (error + unit) \<times> store" where
  "simulateTransaction w t s =
     (case rpc_simulateTransaction w t of
        Inl x \<Rightarrow>
          (case message_of x of
             Inl e \<Rightarrow> (Inl e, emit Simulate s)
           | Inr m \<Rightarrow> (Inl (SimulationError m), emit Simulate s))
      | Inr (Some e) \<Rightarrow> (Inl (SimulationFailed e), emit Simulate s)
      | Inr None \<Rightarrow> (Inr (), emit Simulate s))"

definition already_processed :: "string \<Rightarrow> bool" where
  "already_processed m =
     (m \<noteq> [] \<and>
      (str_includes m ''already processed'' \<or> str_includes m ''already been processed'' \<or>
       str_includes m ''This transaction has already been processed''))"

text \<open>
  Step 6 of \<open>verifyPayment\<close>: the signature the node returns, or, when the node answers
  that the transaction was already processed, the base-58 text of the transaction's own
  first signature. The handler tests \<^verbatim>\<open>error.message\<close> first: that throws for
  \<^verbatim>\<open>null\<close> and \<^verbatim>\<open>undefined\<close>, and is \<^verbatim>\<open>undefined\<close> for a value without a message.
\<close>

definition txSignature_of :: "world \<Rightarrow> string \<Rightarrow> transaction \<Rightarrow> error + string" where
  "txSignature_of w serializedTransaction t =
     (case rpc_sendRawTransaction w serializedTransaction of
        Inr txSignature \<Rightarrow> Inr txSignature
      | Inl NullOrUndefined \<Rightarrow> Inl MessageOfNull
      | Inl OtherValue \<Rightarrow> Inl (SubmissionFailed ''undefined'')
      | Inl (ErrorObject m) \<Rightarrow>
          if already_processed m
          then (case signatures t of
                  Some sg # _ \<Rightarrow> Inr (bs58_encode sg)
                | _ \<Rightarrow> Inl CannotExtractSignature)
          else Inl (SubmissionFailed m))"

definition submit :: "world \<Rightarrow> string \<Rightarrow> transaction \<Rightarrow> store \<Rightarrow> (error + string) \<times> store" where
  "submit w serializedTransaction t s = (txSignature_of w serializedTransaction t, emit SendRaw s)"

text \<open>
  \<^verbatim>\<open>confirmTransaction\<close>: \<open>Inr None\<close> for \<^verbatim>\<open>{ success: true }\<close>, \<open>Inr (Some e)\<close>
  for \<^verbatim>\<open>{ success: false, error }\<close>, and \<open>Inl\<close> when the method's handler throws
  while reading the message.
\<close>

definition confirmation :: "world \<Rightarrow> string \<Rightarrow> error + error option" where
  "confirmation w signature =
     (case rpc_confirmTransaction w signature of
        Inl x \<Rightarrow>
          (case message_of x of
             Inl e \<Rightarrow> Inl e
           | Inr m \<Rightarrow> Inr (Some (ConfirmationError m)))
      | Inr (Some e) \<Rightarrow> Inr (Some (TransactionFailed e))
      | Inr None \<Rightarrow> Inr None)"

definition confirmTransaction ::
  "world \<Rightarrow> string \<Rightarrow> store \<Rightarrow> (error + error option) \<times> store" where
  "confirmTransaction w signature s = (confirmation w signature, emit (Confirm signature) s)"

subsection \<open>Reading the transfers back from the chain\<close>

text \<open>
  \<^verbatim>\<open>parseTokenTransfers\<close> collects the balances per account index in a \<^verbatim>\<open>Map\<close>, which
  keeps its keys in the order of their first insertion: an association list, where
  \<open>map_set\<close> replaces the value of a key in place or appends a new key.
\<close>

record account_entry =
  pre :: int
  post :: int
  acc_owner :: "string option"
  acc_mint :: string

record transfer =
  destination :: string
  tr_mint :: string
  tr_amount :: int
  tr_accountIndex :: nat

fun map_set :: "nat \<Rightarrow> account_entry \<Rightarrow> (nat \<times> account_entry) list \<Rightarrow> (nat \<times> account_entry) list" where
  "map_set k v [] = [(k, v)]"
| "map_set k v ((k', v') # rest) =
     (if k' = k then (k, v) # rest else (k', v') # map_set k v rest)"

definition add_pre :: "(nat \<times> account_entry) list \<Rightarrow> token_balance \<Rightarrow> (nat \<times> account_entry) list" where
  "add_pre m b =
     map_set (accountIndex b)
       \<lparr>pre = Number (int (tb_amount b)), post = 0, acc_owner = owner b, acc_mint = mint b\<rparr> m"

definition add_post :: "(nat \<times> account_entry) list \<Rightarrow> token_balance \<Rightarrow> (nat \<times> account_entry) list" where
  "add_post m b =
     (case map_of m (accountIndex b) of
        Some existing \<Rightarrow>
          map_set (accountIndex b) (existing\<lparr>post := Number (int (tb_amount b))\<rparr>) m
      | None \<Rightarrow>
          map_set (accountIndex b)
            \<lparr>pre = 0, post = Number (int (tb_amount b)), acc_owner = owner b, acc_mint = mint b\<rparr> m)"

text \<open>
  The pass over the map. The source logs \<^verbatim>\<open>account.owner.substring(0, 8)\<close> for every
  entry, which throws when the owner is missing; the handler of \<^verbatim>\<open>parseTokenTransfers\<close>
  then returns the transfers collected so far. The flag tells whether that happened.
\<close>

fun scan_accounts :: "(nat \<times> account_entry) list \<Rightarrow> transfer list \<Rightarrow> bool \<times> transfer list" where
  "scan_accounts [] transfers = (False, transfers)"
| "scan_accounts ((index, account) # rest) transfers =
     (case acc_owner account of
        None \<Rightarrow> (True, transfers)
      | Some ow \<Rightarrow>
          let diff = Number (post account - pre account) in
          scan_accounts rest
            (if 0 < diff
             then transfers @ [\<lparr>destination = ow, tr_mint = acc_mint account,
                                tr_amount = diff, tr_accountIndex = index\<rparr>]
             else transfers))"

definition hasTokenTransfer :: "tx_meta \<Rightarrow> bool" where
  "hasTokenTransfer m =
     (case logMessages m of
        None \<Rightarrow> False
      | Some logs \<Rightarrow>
          list_ex (\<lambda>l. str_includes l ''Instruction: Transfer'' \<and> str_includes l ''success'') logs)"

definition parseTokenTransfers :: "config \<Rightarrow> tx_details \<Rightarrow> transfer list" where
  "parseTokenTransfers cfg txDetails =
     (case meta txDetails of
        None \<Rightarrow> []
      | Some m \<Rightarrow>
          (case postTokenBalances m of
             None \<Rightarrow> []
           | Some postBalances \<Rightarrow>
               (case preTokenBalances m of
                  None \<Rightarrow> []
                | Some preBalances \<Rightarrow>
                    let accountMap = foldl add_post (foldl add_pre [] preBalances) postBalances;
                        scanned = scan_accounts accountMap []
                    in if fst scanned then snd scanned
                       else if snd scanned = [] \<and> err m = None
                       then (if hasTokenTransfer m
                             then (case find (\<lambda>b. owner b = Some (paymentWallet cfg) \<and>
                                                    mint b = cfg_tokenMint cfg) postBalances of
                                     None \<Rightarrow> []
                                   | Some recipientAccount \<Rightarrow>
                                       [\<lparr>destination = paymentWallet cfg,
                                         tr_mint = mint recipientAccount,
                                         tr_amount = requiredAmount cfg,
                                         tr_accountIndex = accountIndex recipientAccount\<rparr>])
                             else [])
                       else snd scanned)))"

text \<open>
  \<^verbatim>\<open>verifyOnChainTransfer\<close>: the first parsed transfer whose destination contains the
  payment wallet and whose mint is the configured one decides; the sender and the amount
  passed in by the caller are not read.
\<close>

definition matches_payment :: "config \<Rightarrow> transfer \<Rightarrow> bool" where
  "matches_payment cfg tr =
     (str_includes (destination tr) (paymentWallet cfg) \<and> tr_mint tr = cfg_tokenMint cfg)"

definition transferVerification :: "config \<Rightarrow> world \<Rightarrow> string \<Rightarrow> error + (int \<times> nat option \<times> nat)" where
  "transferVerification cfg w signature =
     (case rpc_getTransaction w signature of
        Inl x \<Rightarrow>
          (case message_of x of
             Inl e \<Rightarrow> Inl e
           | Inr m \<Rightarrow> Inl (OnChainVerificationFailed m))
      | Inr None \<Rightarrow> Inl TransactionNotFound
      | Inr (Some txDetails) \<Rightarrow>
          (case find (matches_payment cfg) (parseTokenTransfers cfg txDetails) of
             None \<Rightarrow> Inl NoMatchingTransfer
           | Some paymentTransfer \<Rightarrow>
               if tr_amount paymentTransfer < requiredAmount cfg
               then Inl (InsufficientTransferred (requiredAmount cfg) (tr_amount paymentTransfer))
               else Inr (tr_amount paymentTransfer, td_blockTime txDetails, td_slot txDetails)))"

definition verifyOnChainTransfer ::
  "config \<Rightarrow> world \<Rightarrow> string \<Rightarrow> store \<Rightarrow> (error + (int \<times> nat option \<times> nat)) \<times> store" where
  "verifyOnChainTransfer cfg w signature s =
     (transferVerification cfg w signature, emit (GetTransaction signature) s)"

subsection \<open>The verifier\<close>

text \<open>The object \<open>verifyPayment\<close> returns: \<^verbatim>\<open>{ success, payment, message }\<close> or \<^verbatim>\<open>{ success, error }\<close>.\<close>

record result =
  success :: bool
  payment :: "payment option"
  message :: "string option"
  error :: "error option"

definition paymentData_of ::
  "config \<Rightarrow> string option \<Rightarrow> string \<Rightarrow> int \<Rightarrow> pubkey option \<Rightarrow> string \<Rightarrow> status \<Rightarrow>
   (nat option \<times> nat \<times> nat) option \<Rightarrow> paymentData" where
  "paymentData_of cfg uid txSignature amt sender ep st chain =
     \<lparr>pd_userId = uid, pd_transactionSignature = txSignature, pd_amount = amt,
      pd_tokenMint = cfg_tokenMint cfg, pd_senderWallet = sender,
      pd_recipientWallet = paymentWallet cfg, pd_endpoint = ep, pd_status = st,
      pd_network = cfg_network cfg, pd_chain = chain\<rparr>"

text \<open>Steps 7 to 9: confirmation, the check of the transfer on chain, and the write.\<close>

definition confirm_and_record ::
  "config \<Rightarrow> world \<Rightarrow> string \<Rightarrow> string option \<Rightarrow> int \<Rightarrow> pubkey option \<Rightarrow> string \<Rightarrow>
   store \<Rightarrow> (error thrown + result) \<times> store" where
  "confirm_and_record cfg w ep uid amt sender txSignature s =
     (case confirmTransaction w txSignature s of
        (Inl e, s1) \<Rightarrow> (Inl (ErrorObject e), s1)
      | (Inr (Some e), s1) \<Rightarrow>
          (case createPaymentRecord w
                  (paymentData_of cfg uid txSignature amt sender ep Failed None) s1 of
             (Inl x, s2) \<Rightarrow> (Inl x, s2)
           | (Inr p, s2) \<Rightarrow> (Inl (ErrorObject e), s2))
      | (Inr None, s1) \<Rightarrow>
          (case verifyOnChainTransfer cfg w txSignature s1 of
             (Inl e, s2) \<Rightarrow> (Inl (ErrorObject e), s2)
           | (Inr (onchain, bt, sl), s2) \<Rightarrow>
               (case createPaymentRecord w
                       (paymentData_of cfg uid txSignature onchain sender ep Confirmed
                          (Some (bt, sl, now w))) s2 of
                  (Inl x, s3) \<Rightarrow> (Inl x, s3)
                | (Inr p, s3) \<Rightarrow>
                    (Inr \<lparr>success = True, payment = Some p,
                          message = Some ''Payment verified and confirmed'', error = None\<rparr>, s3))))"

text \<open>Steps 4 to 6: static validation, simulation and submission.\<close>

definition validate_and_submit ::
  "config \<Rightarrow> world \<Rightarrow> string \<Rightarrow> string \<Rightarrow> string option \<Rightarrow> transaction \<Rightarrow>
   store \<Rightarrow> (error thrown + result) \<times> store" where
  "validate_and_submit cfg w serializedTransaction ep uid t s =
     (case validateTransactionInstructions cfg t of
        Inl e \<Rightarrow> (Inl (ErrorObject e), s)
      | Inr (amt, sender) \<Rightarrow>
          (case simulateTransaction w t s of
             (Inl e, s1) \<Rightarrow> (Inl (ErrorObject e), s1)
           | (Inr u, s1) \<Rightarrow>
               (case submit w serializedTransaction t s1 of
                  (Inl e, s2) \<Rightarrow> (Inl (ErrorObject e), s2)
                | (Inr txSignature, s2) \<Rightarrow>
                    confirm_and_record cfg w ep uid amt sender txSignature s2)))"

text \<open>
  The body of the \<^verbatim>\<open>try\<close> block. Step 3 looks the payment up under the base-64 text of
  the first signature (the variable the source calls \<^verbatim>\<open>signatureBase58\<close>).
\<close>

definition first_signature :: "transaction \<Rightarrow> byte list option" where
  "first_signature t = (case signatures t of [] \<Rightarrow> None | sg # _ \<Rightarrow> sg)"

definition verifyPayment_try ::
  "config \<Rightarrow> world \<Rightarrow> string \<Rightarrow> string \<Rightarrow> string option \<Rightarrow> store \<Rightarrow>
   (error thrown + result) \<times> store" where
  "verifyPayment_try cfg w serializedTransaction ep uid s =
     (case decode w serializedTransaction of
        Inl x \<Rightarrow> (Inl (library_error x), s)
      | Inr t \<Rightarrow>
          (case first_signature t of
             None \<Rightarrow> (Inl (ErrorObject InvalidSignature), s)
           | Some sg \<Rightarrow>
               (case Payment_findOne w (base64 sg) s of
                  (Inl x, s1) \<Rightarrow> (Inl x, s1)
                | (Inr existingPayment, s1) \<Rightarrow>
                    (case existingPayment of
                       None \<Rightarrow> validate_and_submit cfg w serializedTransaction ep uid t s1
                     | Some p \<Rightarrow>
                         if status p = Confirmed
                         then (Inr \<lparr>success = True, payment = Some p,
                                    message = Some ''Payment already confirmed'', error = None\<rparr>, s1)
                         else if status p = Failed
                         then (Inl (ErrorObject PreviouslyFailed), s1)
                         else validate_and_submit cfg w serializedTransaction ep uid t s1))))"

text \<open>
  \<open>verifyPayment\<close>: the \<^verbatim>\<open>try\<close> block under its \<^verbatim>\<open>catch\<close>, which returns
  \<^verbatim>\<open>{ success: false, error: error.message }\<close>. For an Error object that is its message;
  for a thrown value without a message the \<^verbatim>\<open>error\<close> field is \<^verbatim>\<open>undefined\<close>; for
  \<^verbatim>\<open>null\<close> and \<^verbatim>\<open>undefined\<close> reading the message throws inside the handler, and
  that \<^verbatim>\<open>TypeError\<close> leaves \<open>verifyPayment\<close> (\<open>Inl\<close>).
\<close>

definition verifyPayment ::
  "config \<Rightarrow> world \<Rightarrow> string \<Rightarrow> string \<Rightarrow> string option \<Rightarrow> store \<Rightarrow> (error + result) \<times> store" where
  "verifyPayment cfg w serializedTransaction ep uid s =
     (case verifyPayment_try cfg w serializedTransaction ep uid s of
        (Inl (ErrorObject e), s') \<Rightarrow>
          (Inr \<lparr>success = False, payment = None, message = None, error = Some e\<rparr>, s')
      | (Inl OtherValue, s') \<Rightarrow>
          (Inr \<lparr>success = False, payment = None, message = None, error = None\<rparr>, s')
      | (Inl NullOrUndefined, s') \<Rightarrow> (Inl MessageOfNull, s')
      | (Inr r, s') \<Rightarrow> (Inr r, s'))"

subsection \<open>Notions used to state the properties\<close>

text \<open>
  The database read of step 3, made when the transaction carries a first signature. The
  step lets a call through when the lookup finds no document, or one that is neither
  confirmed nor failed.
\<close>

definition lookup_trace :: "transaction \<Rightarrow> event list" where
  "lookup_trace t = (case first_signature t of None \<Rightarrow> [] | Some sg \<Rightarrow> [FindOne (base64 sg)])"

definition lookup_passes :: "payment list \<Rightarrow> string \<Rightarrow> bool" where
  "lookup_passes db k =
     (case find (\<lambda>p. transactionSignature p = k) db of
        None \<Rightarrow> True
      | Some p \<Rightarrow> status p = Pending)"






text \<open>The eight bytes after the first, least significant first, as a sum.\<close>

definition u64_le_at1 :: "byte list \<Rightarrow> nat" where
  "u64_le_at1 d = (\<Sum>k < 8. unat (d ! (k + 1)) * 256 ^ k)"

subsection \<open>Example inputs\<close>

text \<open>
  A payment of 100000 units: a signed transaction with one transfer instruction of the
  token program, the configuration it is checked against, and what the node reports once
  the transaction is finalized.
\<close>

definition sigA :: "byte list" where
  "sigA = replicate 64 7"

definition cfgA :: config where
  "cfgA = \<lparr>paymentWallet = ''PayWallet'', requiredAmount = 100000,
           cfg_tokenMint = ''Mint'', cfg_network = ''solana-devnet''\<rparr>"

definition transferA :: instruction where
  "transferA = \<lparr>programId = TOKEN_PROGRAM_ID, keys = [''SrcAcct'', ''DstAcct'', ''Payer''],
                data = [3, 0xA0, 0x86, 0x01, 0, 0, 0, 0, 0]\<rparr>"

definition txA :: transaction where
  "txA = \<lparr>signatures = [Some sigA], instructions = [transferA]\<rparr>"

definition preA :: "token_balance list" where
  "preA =
     [\<lparr>accountIndex = 1, tb_amount = 500000, owner = Some ''Payer'', mint = ''Mint''\<rparr>,
      \<lparr>accountIndex = 2, tb_amount = 0, owner = Some ''PayWallet'', mint = ''Mint''\<rparr>]"

definition postA :: "token_balance list" where
  "postA =
     [\<lparr>accountIndex = 1, tb_amount = 400000, owner = Some ''Payer'', mint = ''Mint''\<rparr>,
      \<lparr>accountIndex = 2, tb_amount = 100000, owner = Some ''PayWallet'', mint = ''Mint''\<rparr>]"

definition metaA :: tx_meta where
  "metaA = \<lparr>err = None, preTokenBalances = Some preA, postTokenBalances = Some postA,
            logMessages = None\<rparr>"

definition detailsA :: tx_details where
  "detailsA = \<lparr>td_blockTime = Some 1700000000, td_slot = 42, meta = Some metaA\<rparr>"

text \<open>The node accepts the submission, confirms it and reports the transfer.\<close>

definition world_fresh :: world where
  "world_fresh =
     \<lparr>decode = (\<lambda>b. Inr txA), findOne_fault = None,
      rpc_simulateTransaction = (\<lambda>t. Inr None),
      rpc_sendRawTransaction = (\<lambda>b. Inr (bs58_encode sigA)),
      rpc_confirmTransaction = (\<lambda>g. Inr None),
      rpc_getTransaction = (\<lambda>g. Inr (Some detailsA)),
      findOneAndUpdate_fault = None, now = 1700000001\<rparr>"

text \<open>The transaction has landed before: the node refuses the submission as a repeat.\<close>

definition world_landed :: world where
  "world_landed =
     world_fresh\<lparr>rpc_sendRawTransaction :=
       (\<lambda>b. Inl (ErrorObject
          ''Transaction simulation failed: This transaction has already been processed'')),
       now := 1700000060\<rparr>"

text \<open>The same, with a node whose simulation already reports the repeat.\<close>

definition world_landed_sim :: world where
  "world_landed_sim =
     world_landed\<lparr>rpc_simulateTransaction := (\<lambda>t. Inr (Some ''AlreadyProcessed''))\<rparr>"

text \<open>The confirmation call times out.\<close>

definition world_timeout :: world where
  "world_timeout =
     world_fresh\<lparr>rpc_confirmTransaction :=
       (\<lambda>g. Inl (ErrorObject ''Transaction was not confirmed in 30.00 seconds''))\<rparr>"

text \<open>The transaction has landed before and its execution failed on chain.\<close>

definition world_landed_failed :: world where
  "world_landed_failed =
     world_landed\<lparr>rpc_confirmTransaction := (\<lambda>g. Inr (Some ''InstructionError''))\<rparr>"

definition store0 :: store where
  "store0 = \<lparr>payments = [], calls = []\<rparr>"

text \<open>The documents the calls on \<open>txA\<close> write.\<close>

definition confirmedA :: payment where
  "confirmedA =
     \<lparr>userId = None, transactionSignature = bs58_encode sigA, amount = 100000,
      tokenMint = ''Mint'', senderWallet = Some ''SrcAcct'', recipientWallet = ''PayWallet'',
      endpoint = ''/api/analyze'', status = Confirmed, blockTime = Some 1700000000,
      slot = Some 42, network = ''solana-devnet'', verifiedAt = Some 1700000001\<rparr>"

definition failedA :: payment where
  "failedA =
     \<lparr>userId = None, transactionSignature = bs58_encode sigA, amount = 100000,
      tokenMint = ''Mint'', senderWallet = Some ''SrcAcct'', recipientWallet = ''PayWallet'',
      endpoint = ''/api/analyze'', status = Failed, blockTime = None,
      slot = None, network = ''solana-devnet'', verifiedAt = None\<rparr>"

text \<open>
  The payment wallet owns two accounts of the mint. The transaction \<open>txB\<close> transfers
  100000 units to the second and then one unit to the first; the first has the lower
  account index.
\<close>

definition txB :: transaction where
  "txB =
     \<lparr>signatures = [Some sigA],
      instructions =
        [transferA\<lparr>keys := [''SrcAcct'', ''DstAcct2'', ''Payer'']\<rparr>,
         transferA\<lparr>data := [3, 1, 0, 0, 0, 0, 0, 0, 0]\<rparr>]\<rparr>"

definition detailsB :: tx_details where
  "detailsB =
     \<lparr>td_blockTime = Some 1700000000, td_slot = 42,
      meta = Some \<lparr>err = None,
        preTokenBalances = Some
          [\<lparr>accountIndex = 1, tb_amount = 500000, owner = Some ''Payer'', mint = ''Mint''\<rparr>,
           \<lparr>accountIndex = 2, tb_amount = 0, owner = Some ''PayWallet'', mint = ''Mint''\<rparr>,
           \<lparr>accountIndex = 3, tb_amount = 0, owner = Some ''PayWallet'', mint = ''Mint''\<rparr>],
        postTokenBalances = Some
          [\<lparr>accountIndex = 1, tb_amount = 399999, owner = Some ''Payer'', mint = ''Mint''\<rparr>,
           \<lparr>accountIndex = 2, tb_amount = 1, owner = Some ''PayWallet'', mint = ''Mint''\<rparr>,
           \<lparr>accountIndex = 3, tb_amount = 100000, owner = Some ''PayWallet'', mint = ''Mint''\<rparr>],
        logMessages = None\<rparr>\<rparr>"

definition world_two_accounts :: world where
  "world_two_accounts =
     world_fresh\<lparr>decode := (\<lambda>b. Inr txB), rpc_getTransaction := (\<lambda>g. Inr (Some detailsB))\<rparr>"

text \<open>An unsigned transaction that transfers 50000 units, half the required amount.\<close>

definition tx_unsigned_low :: transaction where
  "tx_unsigned_low =
     \<lparr>signatures = [None],
      instructions = [transferA\<lparr>data := [3, 0x50, 0xC3, 0, 0, 0, 0, 0, 0]\<rparr>]\<rparr>"

text \<open>An unsigned transaction whose only instruction belongs to the memo program.\<close>

definition tx_unsigned_memo :: transaction where
  "tx_unsigned_memo =
     \<lparr>signatures = [None],
      instructions = [\<lparr>programId = ''MemoSq4gqABAXKb96qnH8TysNcWxMyWCqXgDLGmfcHr'',
                       keys = [], data = [104, 105]\<rparr>]\<rparr>"

text \<open>The transfer of \<open>txA\<close>, with the source account as its only account key.\<close>

definition tx_one_key :: transaction where
  "tx_one_key = \<lparr>signatures = [Some sigA], instructions = [transferA\<lparr>keys := [''SrcAcct'']\<rparr>]\<rparr>"

text \<open>The same transaction before it is signed.\<close>

definition tx_one_key_unsigned :: transaction where
  "tx_one_key_unsigned = tx_one_key\<lparr>signatures := [None]\<rparr>"

text \<open>The database driver rejects the write with \<^verbatim>\<open>undefined\<close>.\<close>

definition world_write_rejects :: world where
  "world_write_rejects = world_fresh\<lparr>findOneAndUpdate_fault := Some NullOrUndefined\<rparr>"

text \<open>
  An entry without owner precedes the credited account of the payment wallet in the
  balance lists.
\<close>

definition detailsC :: tx_details where
  "detailsC =
     \<lparr>td_blockTime = Some 1700000000, td_slot = 42,
      meta = Some \<lparr>err = None,
        preTokenBalances = Some
          [\<lparr>accountIndex = 1, tb_amount = 500000, owner = None, mint = ''Mint''\<rparr>,
           \<lparr>accountIndex = 2, tb_amount = 0, owner = Some ''PayWallet'', mint = ''Mint''\<rparr>],
        postTokenBalances = Some
          [\<lparr>accountIndex = 1, tb_amount = 400000, owner = None, mint = ''Mint''\<rparr>,
           \<lparr>accountIndex = 2, tb_amount = 100000, owner = Some ''PayWallet'', mint = ''Mint''\<rparr>],
        logMessages = None\<rparr>\<rparr>"

section \<open>Properties\<close>

subsection \<open>The lookup key and the stored key\<close>

text \<open>
  The base-64 text of a byte string whose length is not a multiple of three ends in
  padding; the base-58 alphabet has no padding character. A signature has 64 bytes, so the
  key that step 3 looks up is never the base-58 text of the same signature.
\<close>

lemma base64_pad: "length bs mod 3 \<noteq> 0 \<Longrightarrow> CHR ''='' \<in> set (base64 bs)"
  by (induction bs rule: base64.induct) auto

lemma base58_char_not_pad: "base58_char i \<noteq> CHR ''=''"
proof -
  have "base58_alphabet ! (i mod 58) \<in> set base58_alphabet"
    by (rule nth_mem) (simp add: base58_alphabet_def)
  moreover have "CHR ''='' \<notin> set base58_alphabet"
    by (simp add: base58_alphabet_def)
  ultimately show ?thesis
    unfolding base58_char_def by metis
qed

lemma bs58_no_pad: "CHR ''='' \<notin> set (bs58_encode bs)"
  using base58_char_not_pad [symmetric] by (auto simp: bs58_encode_def)

lemma lookup_key_differs: "length sg mod 3 \<noteq> 0 \<Longrightarrow> base64 sg \<noteq> bs58_encode sg"
  using base64_pad [of sg] bs58_no_pad [of sg] by metis

text \<open>
  So a collection whose keys are all base-58 texts, as every key the controller writes
  from a node's answer is, never stops a 64-byte signature at step 3.
\<close>

lemma lookup_misses_base58_keys:
  assumes "length sg mod 3 \<noteq> 0"
    and "list_all (\<lambda>p. CHR ''='' \<notin> set (transactionSignature p)) db"
  shows "lookup_passes db (base64 sg)"
proof -
  have "find (\<lambda>p. transactionSignature p = base64 sg) db = None"
    using assms base64_pad [of sg] by (auto simp: find_None_iff list_all_iff)
  then show ?thesis by (simp add: lookup_passes_def)
qed

lemma length_sigA: "length sigA = 64"
  by (simp add: sigA_def)

lemma sigA_keys: "bs58_encode sigA \<noteq> base64 sigA" "base64 sigA \<noteq> bs58_encode sigA"
  using lookup_key_differs [of sigA] by (simp_all add: length_sigA)

subsection \<open>Numbers below \<open>2 ^ 53\<close> are exact\<close>

lemma Number_exact: "\<bar>x\<bar> < 2 ^ 53 \<Longrightarrow> Number x = x"
  by (auto simp: Number_def round53_def)

subsection \<open>The example inputs, evaluated\<close>

lemma payments_emit [simp]: "payments (emit ev s) = payments s"
  by (simp add: emit_def)

lemma calls_emit [simp]: "calls (emit ev s) = calls s @ [ev]"
  by (simp add: emit_def)

lemma cfgA_fields:
  "paymentWallet cfgA = ''PayWallet''" "requiredAmount cfgA = 100000"
  "cfg_tokenMint cfgA = ''Mint''" "cfg_network cfgA = ''solana-devnet''"
  by (simp_all add: cfgA_def)

lemma txA_fields: "signatures txA = [Some sigA]" "instructions txA = [transferA]"
  by (simp_all add: txA_def)

lemma txB_fields: "signatures txB = [Some sigA]"
  by (simp add: txB_def)

lemma detailsA_fields: "td_blockTime detailsA = Some 1700000000" "td_slot detailsA = 42"
  by (simp_all add: detailsA_def)

lemma detailsB_fields: "td_blockTime detailsB = Some 1700000000" "td_slot detailsB = 42"
  by (simp_all add: detailsB_def)

lemma validate_txA: "validateTransactionInstructions cfgA txA = Inr (100000, Some ''SrcAcct'')"
  by (simp add: validateTransactionInstructions_def txA_def transferA_def is_transfer_def
      TOKEN_PROGRAM_ID_def readBigUInt64LE_def le_nat_def Number_def round53_def cfgA_def
      senderTokenAccount_def)

lemma validate_txB: "validateTransactionInstructions cfgA txB = Inr (100000, Some ''SrcAcct'')"
  by (simp add: validateTransactionInstructions_def txB_def transferA_def is_transfer_def
      TOKEN_PROGRAM_ID_def readBigUInt64LE_def le_nat_def Number_def round53_def cfgA_def
      senderTokenAccount_def)

lemma parse_detailsA:
  "parseTokenTransfers cfgA detailsA =
     [\<lparr>destination = ''PayWallet'', tr_mint = ''Mint'', tr_amount = 100000, tr_accountIndex = 2\<rparr>]"
  by (simp add: parseTokenTransfers_def detailsA_def metaA_def preA_def postA_def add_pre_def
      add_post_def Number_def round53_def)

lemma parse_detailsB:
  "parseTokenTransfers cfgA detailsB =
     [\<lparr>destination = ''PayWallet'', tr_mint = ''Mint'', tr_amount = 1, tr_accountIndex = 2\<rparr>,
      \<lparr>destination = ''PayWallet'', tr_mint = ''Mint'', tr_amount = 100000, tr_accountIndex = 3\<rparr>]"
  by (simp add: parseTokenTransfers_def detailsB_def add_pre_def add_post_def Number_def
      round53_def)

lemma detailsC_fields: "td_blockTime detailsC = Some 1700000000" "td_slot detailsC = 42"
  by (simp_all add: detailsC_def)

lemma parse_detailsC: "parseTokenTransfers cfgA detailsC = []"
  by (simp add: parseTokenTransfers_def detailsC_def add_pre_def add_post_def Number_def
      round53_def)

lemmas exampleA =
  cfgA_fields txA_fields txB_fields detailsA_fields detailsB_fields validate_txA validate_txB
  parse_detailsA parse_detailsB sigA_keys

lemmas example_worlds =
  world_fresh_def world_landed_def world_landed_sim_def world_timeout_def
  world_landed_failed_def world_two_accounts_def world_write_rejects_def store0_def

lemmas pipeline_defs =
  verifyPayment_def verifyPayment_try_def validate_and_submit_def confirm_and_record_def
  Payment_findOne_def simulateTransaction_def submit_def txSignature_of_def
  confirmTransaction_def confirmation_def verifyOnChainTransfer_def transferVerification_def
  createPaymentRecord_def paymentData_of_def emit_def first_signature_def matches_payment_def
  new_document_def apply_update_def already_processed_def library_error_def message_of_def

lemma first_call_confirms:
  "verifyPayment cfgA world_fresh ''txA'' ''/api/analyze'' None store0 =
     (Inr \<lparr>success = True, payment = Some confirmedA,
           message = Some ''Payment verified and confirmed'', error = None\<rparr>,
      \<lparr>payments = [confirmedA],
       calls = [FindOne (base64 sigA), Simulate, SendRaw, Confirm (bs58_encode sigA),
                GetTransaction (bs58_encode sigA),
                FindOneAndUpdate (paymentData_of cfgA None (bs58_encode sigA) 100000
                  (Some ''SrcAcct'') ''/api/analyze'' Confirmed
                  (Some (Some 1700000000, 42, 1700000001)))]\<rparr>)"
  by (simp add: pipeline_defs example_worlds exampleA confirmedA_def)

lemma first_call_times_out:
  "verifyPayment cfgA world_timeout ''txA'' ''/api/analyze'' None store0 =
     (Inr \<lparr>success = False, payment = None, message = None,
           error = Some (ConfirmationError ''Transaction was not confirmed in 30.00 seconds'')\<rparr>,
      \<lparr>payments = [failedA],
       calls = [FindOne (base64 sigA), Simulate, SendRaw, Confirm (bs58_encode sigA),
                FindOneAndUpdate (paymentData_of cfgA None (bs58_encode sigA) 100000
                  (Some ''SrcAcct'') ''/api/analyze'' Failed None)]\<rparr>)"
  by (simp add: pipeline_defs example_worlds exampleA failedA_def)

subsection \<open>Replay of a confirmed payment\<close>

text \<open>
  C1. The specification says: once a transaction's signature has a confirmed record, a second call with
  the same encoded transaction returns that record, writes nothing new and submits nothing.
  On the code this fails. The first call on \<open>txA\<close> stores \<open>confirmedA\<close> under the
  base-58 text of the signature. A second call looks up the base-64 text, finds nothing and
  runs the pipeline again: when the node's simulation reports the repeat the call is
  rejected, and when the simulation passes the transaction is submitted a second time and
  the record is written again.
\<close>

theorem replay_of_confirmed_payment_runs_pipeline_again:
  "verifyPayment cfgA world_fresh ''txA'' ''/api/analyze'' None store0 =
     (Inr \<lparr>success = True, payment = Some confirmedA,
           message = Some ''Payment verified and confirmed'', error = None\<rparr>,
      \<lparr>payments = [confirmedA],
       calls = [FindOne (base64 sigA), Simulate, SendRaw, Confirm (bs58_encode sigA),
                GetTransaction (bs58_encode sigA),
                FindOneAndUpdate (paymentData_of cfgA None (bs58_encode sigA) 100000
                  (Some ''SrcAcct'') ''/api/analyze'' Confirmed
                  (Some (Some 1700000000, 42, 1700000001)))]\<rparr>)
   \<and> verifyPayment cfgA world_landed_sim ''txA'' ''/api/analyze'' None
       \<lparr>payments = [confirmedA], calls = []\<rparr> =
     (Inr \<lparr>success = False, payment = None, message = None,
           error = Some (SimulationFailed ''AlreadyProcessed'')\<rparr>,
      \<lparr>payments = [confirmedA], calls = [FindOne (base64 sigA), Simulate]\<rparr>)
   \<and> verifyPayment cfgA world_landed ''txA'' ''/api/analyze'' None
       \<lparr>payments = [confirmedA], calls = []\<rparr> =
     (Inr \<lparr>success = True, payment = Some (confirmedA\<lparr>verifiedAt := Some 1700000060\<rparr>),
           message = Some ''Payment verified and confirmed'', error = None\<rparr>,
      \<lparr>payments = [confirmedA\<lparr>verifiedAt := Some 1700000060\<rparr>],
       calls = [FindOne (base64 sigA), Simulate, SendRaw, Confirm (bs58_encode sigA),
                GetTransaction (bs58_encode sigA),
                FindOneAndUpdate (paymentData_of cfgA None (bs58_encode sigA) 100000
                  (Some ''SrcAcct'') ''/api/analyze'' Confirmed
                  (Some (Some 1700000000, 42, 1700000060)))]\<rparr>)"
proof (intro conjI)
  show "verifyPayment cfgA world_fresh ''txA'' ''/api/analyze'' None store0 =
     (Inr \<lparr>success = True, payment = Some confirmedA,
           message = Some ''Payment verified and confirmed'', error = None\<rparr>,
      \<lparr>payments = [confirmedA],
       calls = [FindOne (base64 sigA), Simulate, SendRaw, Confirm (bs58_encode sigA),
                GetTransaction (bs58_encode sigA),
                FindOneAndUpdate (paymentData_of cfgA None (bs58_encode sigA) 100000
                  (Some ''SrcAcct'') ''/api/analyze'' Confirmed
                  (Some (Some 1700000000, 42, 1700000001)))]\<rparr>)"
    by (rule first_call_confirms)
next
  show "verifyPayment cfgA world_landed_sim ''txA'' ''/api/analyze'' None
       \<lparr>payments = [confirmedA], calls = []\<rparr> =
     (Inr \<lparr>success = False, payment = None, message = None,
           error = Some (SimulationFailed ''AlreadyProcessed'')\<rparr>,
      \<lparr>payments = [confirmedA], calls = [FindOne (base64 sigA), Simulate]\<rparr>)"
    by (simp add: pipeline_defs example_worlds exampleA confirmedA_def)
next
  show "verifyPayment cfgA world_landed ''txA'' ''/api/analyze'' None
       \<lparr>payments = [confirmedA], calls = []\<rparr> =
     (Inr \<lparr>success = True, payment = Some (confirmedA\<lparr>verifiedAt := Some 1700000060\<rparr>),
           message = Some ''Payment verified and confirmed'', error = None\<rparr>,
      \<lparr>payments = [confirmedA\<lparr>verifiedAt := Some 1700000060\<rparr>],
       calls = [FindOne (base64 sigA), Simulate, SendRaw, Confirm (bs58_encode sigA),
                GetTransaction (bs58_encode sigA),
                FindOneAndUpdate (paymentData_of cfgA None (bs58_encode sigA) 100000
                  (Some ''SrcAcct'') ''/api/analyze'' Confirmed
                  (Some (Some 1700000000, 42, 1700000060)))]\<rparr>)"
    by (simp add: pipeline_defs example_worlds exampleA confirmedA_def)
qed

subsection \<open>One record per signature, and its status\<close>

text \<open>
  C2. The specification says: a signature has at most one record, and no sequence of calls turns a
  failed record into a confirmed one. The first half holds, since every write is an upsert
  under the signature (\<open>verifyPayment_keeps_signatures_distinct\<close> below). The second
  half fails on the code: a call whose confirmation times
  out stores \<open>failedA\<close>; the retry misses it at the lookup, runs the pipeline again and,
  the transaction having landed meanwhile, overwrites the same record as confirmed.
\<close>

theorem failed_record_is_overwritten_as_confirmed:
  "payments (snd (verifyPayment cfgA world_timeout ''txA'' ''/api/analyze'' None store0)) = [failedA]
   \<and> payments (snd (verifyPayment cfgA world_landed ''txA'' ''/api/analyze'' None
        \<lparr>payments = [failedA], calls = []\<rparr>)) =
       [failedA\<lparr>status := Confirmed, blockTime := Some 1700000000, slot := Some 42,
                verifiedAt := Some 1700000060\<rparr>]
   \<and> status failedA = Failed"
  by (simp add: first_call_times_out)
    (simp add: pipeline_defs example_worlds exampleA failedA_def)

subsection \<open>A retry after a failed confirmation\<close>

text \<open>
  C3. The specification says: after a call failed at the confirmation step, a failed record is stored
  and every later call with the same transaction is rejected at the lookup as previously
  failed, before any new submission. The record is stored, but the later call is not
  stopped: it reads the collection under the base-64 key, simulates and submits again, and
  here fails at the confirmation step once more, writing the record a second time.
\<close>

theorem retry_after_failed_confirmation_submits_again:
  "verifyPayment cfgA world_timeout ''txA'' ''/api/analyze'' None store0 =
     (Inr \<lparr>success = False, payment = None, message = None,
           error = Some (ConfirmationError ''Transaction was not confirmed in 30.00 seconds'')\<rparr>,
      \<lparr>payments = [failedA],
       calls = [FindOne (base64 sigA), Simulate, SendRaw, Confirm (bs58_encode sigA),
                FindOneAndUpdate (paymentData_of cfgA None (bs58_encode sigA) 100000
                  (Some ''SrcAcct'') ''/api/analyze'' Failed None)]\<rparr>)
   \<and> verifyPayment cfgA world_timeout ''txA'' ''/api/analyze'' None
       \<lparr>payments = [failedA], calls = []\<rparr> =
     (Inr \<lparr>success = False, payment = None, message = None,
           error = Some (ConfirmationError ''Transaction was not confirmed in 30.00 seconds'')\<rparr>,
      \<lparr>payments = [failedA],
       calls = [FindOne (base64 sigA), Simulate, SendRaw, Confirm (bs58_encode sigA),
                FindOneAndUpdate (paymentData_of cfgA None (bs58_encode sigA) 100000
                  (Some ''SrcAcct'') ''/api/analyze'' Failed None)]\<rparr>)"
  by (simp add: first_call_times_out)
    (simp add: pipeline_defs example_worlds exampleA failedA_def)


subsection \<open>Steps of the pipeline\<close>

lemma first_signature_Some:
  "first_signature t = Some sg \<Longrightarrow> \<exists>rest. signatures t = Some sg # rest"
  by (auto simp: first_signature_def split: list.splits)

lemma try_reaches_validation:
  assumes "decode w blob = Inr t" and "first_signature t = Some sg"
    and "findOne_fault w = None" and "lookup_passes (payments s) (base64 sg)"
  shows "verifyPayment_try cfg w blob ep uid s =
           validate_and_submit cfg w blob ep uid t (emit (FindOne (base64 sg)) s)"
  using assms
  by (auto simp: verifyPayment_try_def Payment_findOne_def lookup_passes_def split: option.splits)

lemma validation_rejects:
  "validateTransactionInstructions cfg t = Inl e \<Longrightarrow>
     validate_and_submit cfg w blob ep uid t s = (Inl (ErrorObject e), s)"
  by (simp add: validate_and_submit_def)

lemma validate_and_submit_reaches_confirmation:
  assumes "validateTransactionInstructions cfg t = Inr (amt, sender)"
    and "rpc_simulateTransaction w t = Inr None"
    and "txSignature_of w blob t = Inr g"
  shows "validate_and_submit cfg w blob ep uid t s =
           confirm_and_record cfg w ep uid amt sender g (emit SendRaw (emit Simulate s))"
  using assms by (simp add: validate_and_submit_def simulateTransaction_def submit_def)

lemma rejected_before_validation_ends:
  assumes "decode w blob = Inr t" and "validateTransactionInstructions cfg t = Inl e"
  shows "snd (verifyPayment_try cfg w blob ep uid s) = s\<lparr>calls := calls s @ lookup_trace t\<rparr>"
  using assms
  by (auto simp: verifyPayment_try_def Payment_findOne_def lookup_trace_def validation_rejects
      emit_def split: option.splits)

lemma snd_verifyPayment:
  "snd (verifyPayment cfg w blob ep uid s) = snd (verifyPayment_try cfg w blob ep uid s)"
  by (simp add: verifyPayment_def split: prod.splits sum.splits thrown.splits)

lemma verifyPayment_rejected:
  "fst (verifyPayment_try cfg w blob ep uid s) = Inl (ErrorObject e) \<Longrightarrow>
     fst (verifyPayment cfg w blob ep uid s) =
       Inr \<lparr>success = False, payment = None, message = None, error = Some e\<rparr>"
  by (cases "verifyPayment_try cfg w blob ep uid s") (auto simp: verifyPayment_def)

lemma verifyPayment_returned:
  "fst (verifyPayment_try cfg w blob ep uid s) = Inr r \<Longrightarrow>
     fst (verifyPayment cfg w blob ep uid s) = Inr r"
  by (cases "verifyPayment_try cfg w blob ep uid s") (auto simp: verifyPayment_def)

lemma validate_insufficient:
  assumes "find is_transfer (instructions t) = Some i"
    and "readBigUInt64LE (data i) 1 = Some n"
    and "Number (int n) < requiredAmount cfg"
  shows "validateTransactionInstructions cfg t =
           Inl (InsufficientPayment (requiredAmount cfg) (Number (int n)))"
  using assms by (auto simp: validateTransactionInstructions_def)

lemma validate_no_transfer:
  assumes "find is_transfer (instructions t) = None"
  shows "validateTransactionInstructions cfg t =
           Inl (if instructions t = [] then NoInstructions else NoTransferInstruction)"
  using assms by (simp add: validateTransactionInstructions_def)

lemma validate_null_sender:
  assumes "find is_transfer (instructions t) = Some i"
    and "length (keys i) < 2"
    and "readBigUInt64LE (data i) 1 = Some n"
    and "requiredAmount cfg \<le> Number (int n)"
  shows "validateTransactionInstructions cfg t = Inr (Number (int n), None)"
  using assms by (auto simp: validateTransactionInstructions_def senderTokenAccount_def)

subsection \<open>An amount below the minimum\<close>

text \<open>
  C6. The specification says: every transaction whose decoded transfer amount is below the configured
  minimum is rejected for its insufficient amount, and the call persists no confirmed
  record. As stated this fails for \<open>tx_unsigned_low\<close>: step 2 rejects a transaction without
  a first signature before the amount is looked at.
\<close>

theorem unsigned_low_payment_rejected_for_signature:
  "verifyPayment cfgA (world_fresh\<lparr>decode := (\<lambda>b. Inr tx_unsigned_low)\<rparr>) ''txLow''
       ''/api/analyze'' None store0 =
     (Inr \<lparr>success = False, payment = None, message = None, error = Some InvalidSignature\<rparr>,
      store0)
   \<and> validateTransactionInstructions cfgA tx_unsigned_low =
       Inl (InsufficientPayment 100000 50000)"
  by (simp add: verifyPayment_def verifyPayment_try_def first_signature_def world_fresh_def
      tx_unsigned_low_def validateTransactionInstructions_def transferA_def is_transfer_def
      TOKEN_PROGRAM_ID_def readBigUInt64LE_def le_nat_def Number_def round53_def cfgA_def)

text \<open>
  C6, amended. For every decoded transaction whose first transfer instruction carries an
  amount below the minimum, the call changes no document and makes no external call but
  the lookup of step 3; and when the transaction has a first signature and the lookup
  passes (it does not throw and finds no confirmed or failed record), the call returns
  \<open>success = False\<close> with the insufficient-amount error.
\<close>

theorem insufficient_amount_rejected_without_write:
  assumes "decode w blob = Inr t"
    and "find is_transfer (instructions t) = Some i"
    and "readBigUInt64LE (data i) 1 = Some n"
    and "Number (int n) < requiredAmount cfg"
  shows "snd (verifyPayment cfg w blob ep uid s) = s\<lparr>calls := calls s @ lookup_trace t\<rparr>
    \<and> (first_signature t = Some sg \<and> findOne_fault w = None \<and>
        lookup_passes (payments s) (base64 sg) \<longrightarrow>
        fst (verifyPayment cfg w blob ep uid s) =
          Inr \<lparr>success = False, payment = None, message = None,
               error = Some (InsufficientPayment (requiredAmount cfg) (Number (int n)))\<rparr>)"
proof -
  have rej: "validateTransactionInstructions cfg t =
               Inl (InsufficientPayment (requiredAmount cfg) (Number (int n)))"
    using assms(2-4) by (rule validate_insufficient)
  have "snd (verifyPayment cfg w blob ep uid s) = s\<lparr>calls := calls s @ lookup_trace t\<rparr>"
    using assms(1) rej by (simp add: snd_verifyPayment rejected_before_validation_ends)
  moreover have "fst (verifyPayment cfg w blob ep uid s) =
          Inr \<lparr>success = False, payment = None, message = None,
               error = Some (InsufficientPayment (requiredAmount cfg) (Number (int n)))\<rparr>"
    if "first_signature t = Some sg" "findOne_fault w = None"
      "lookup_passes (payments s) (base64 sg)"
  proof (rule verifyPayment_rejected)
    show "fst (verifyPayment_try cfg w blob ep uid s) =
            Inl (ErrorObject (InsufficientPayment (requiredAmount cfg) (Number (int n))))"
      using try_reaches_validation [OF assms(1) that] rej by (simp add: validation_rejects)
  qed
  ultimately show ?thesis by blast
qed

theorem insufficient_amount_rejected_without_write_witness:
  "snd (verifyPayment cfgA (world_fresh\<lparr>decode := (\<lambda>b. Inr (txA\<lparr>instructions :=
         [transferA\<lparr>data := [3, 0x50, 0xC3, 0, 0, 0, 0, 0, 0]\<rparr>]\<rparr>))\<rparr>) ''txLow''
         ''/api/analyze'' None store0) =
     \<lparr>payments = [], calls = [FindOne (base64 sigA)]\<rparr>
   \<and> fst (verifyPayment cfgA (world_fresh\<lparr>decode := (\<lambda>b. Inr (txA\<lparr>instructions :=
         [transferA\<lparr>data := [3, 0x50, 0xC3, 0, 0, 0, 0, 0, 0]\<rparr>]\<rparr>))\<rparr>) ''txLow''
         ''/api/analyze'' None store0) =
     Inr \<lparr>success = False, payment = None, message = None,
          error = Some (InsufficientPayment 100000 50000)\<rparr>"
  using insufficient_amount_rejected_without_write
    [of "world_fresh\<lparr>decode := (\<lambda>b. Inr (txA\<lparr>instructions :=
           [transferA\<lparr>data := [3, 0x50, 0xC3, 0, 0, 0, 0, 0, 0]\<rparr>]\<rparr>))\<rparr>"
        "''txLow''"
        "txA\<lparr>instructions := [transferA\<lparr>data := [3, 0x50, 0xC3, 0, 0, 0, 0, 0, 0]\<rparr>]\<rparr>"
        "transferA\<lparr>data := [3, 0x50, 0xC3, 0, 0, 0, 0, 0, 0]\<rparr>"
        50000 cfgA "''/api/analyze''" None store0 sigA]
  by (simp add: world_fresh_def txA_def transferA_def is_transfer_def TOKEN_PROGRAM_ID_def
      readBigUInt64LE_def le_nat_def Number_def round53_def cfgA_def store0_def
      lookup_trace_def first_signature_def lookup_passes_def)


subsection \<open>A transaction without a transfer instruction\<close>

text \<open>
  C7. The specification says: every transaction without a token-transfer instruction is rejected for
  that reason, with no submission, simulation or write. The absence of side effects holds;
  the reason does not for \<open>tx_unsigned_memo\<close>, which step 2 rejects for its missing
  signature before the instructions are read.
\<close>

theorem unsigned_memo_rejected_for_signature:
  "verifyPayment cfgA (world_fresh\<lparr>decode := (\<lambda>b. Inr tx_unsigned_memo)\<rparr>) ''txMemo''
       ''/api/analyze'' None store0 =
     (Inr \<lparr>success = False, payment = None, message = None, error = Some InvalidSignature\<rparr>,
      store0)
   \<and> find is_transfer (instructions tx_unsigned_memo) = None"
  by (simp add: verifyPayment_def verifyPayment_try_def first_signature_def world_fresh_def
      tx_unsigned_memo_def is_transfer_def TOKEN_PROGRAM_ID_def)

text \<open>
  C7, amended. For every decoded transaction in which no instruction of the token program
  starts with the byte 3, the call changes no document and makes no external call but the
  lookup of step 3 (no simulation, no submission, no write); and when the transaction has a
  first signature and the lookup passes, the call returns \<open>success = False\<close> with the
  error for a missing transfer instruction (for an empty instruction list, the error for
  no instructions).
\<close>

theorem no_transfer_instruction_rejected_without_side_effect:
  assumes "decode w blob = Inr t"
    and "find is_transfer (instructions t) = None"
  shows "snd (verifyPayment cfg w blob ep uid s) = s\<lparr>calls := calls s @ lookup_trace t\<rparr>
    \<and> (first_signature t = Some sg \<and> findOne_fault w = None \<and>
        lookup_passes (payments s) (base64 sg) \<longrightarrow>
        fst (verifyPayment cfg w blob ep uid s) =
          Inr \<lparr>success = False, payment = None, message = None,
               error = Some (if instructions t = [] then NoInstructions
                             else NoTransferInstruction)\<rparr>)"
proof -
  let ?e = "if instructions t = [] then NoInstructions else NoTransferInstruction"
  have rej: "validateTransactionInstructions cfg t = Inl ?e"
    using assms(2) by (rule validate_no_transfer)
  have "snd (verifyPayment cfg w blob ep uid s) = s\<lparr>calls := calls s @ lookup_trace t\<rparr>"
    using assms(1) rej by (simp only: snd_verifyPayment rejected_before_validation_ends)
  moreover have "fst (verifyPayment cfg w blob ep uid s) =
          Inr \<lparr>success = False, payment = None, message = None, error = Some ?e\<rparr>"
    if "first_signature t = Some sg" "findOne_fault w = None"
      "lookup_passes (payments s) (base64 sg)"
  proof (rule verifyPayment_rejected)
    show "fst (verifyPayment_try cfg w blob ep uid s) = Inl (ErrorObject ?e)"
      using try_reaches_validation [OF assms(1) that] validation_rejects [OF rej]
      by (simp only: fst_conv)
  qed
  ultimately show ?thesis by blast
qed

theorem no_transfer_instruction_rejected_without_side_effect_witness:
  "verifyPayment cfgA (world_fresh\<lparr>decode := (\<lambda>b. Inr (tx_unsigned_memo\<lparr>signatures :=
         [Some sigA]\<rparr>))\<rparr>) ''txMemo'' ''/api/analyze'' None store0 =
     (Inr \<lparr>success = False, payment = None, message = None,
           error = Some NoTransferInstruction\<rparr>,
      \<lparr>payments = [], calls = [FindOne (base64 sigA)]\<rparr>)"
  using no_transfer_instruction_rejected_without_side_effect
    [where w = "world_fresh\<lparr>decode := (\<lambda>b. Inr (tx_unsigned_memo\<lparr>signatures :=
           [Some sigA]\<rparr>))\<rparr>"
       and blob = "''txMemo''" and t = "tx_unsigned_memo\<lparr>signatures := [Some sigA]\<rparr>"
       and cfg = cfgA and ep = "''/api/analyze''" and uid = None and s = store0
       and sg = sigA]
  by (simp add: world_fresh_def tx_unsigned_memo_def is_transfer_def TOKEN_PROGRAM_ID_def
      store0_def lookup_trace_def first_signature_def lookup_passes_def prod_eq_iff)

subsection \<open>Every call returns an object\<close>

lemma confirm_and_record_shape:
  "confirm_and_record cfg w ep uid amt sender g s = (Inr r, s') \<Longrightarrow>
     success r \<and> (\<exists>p. payment r = Some p) \<and> error r = None"
  by (auto simp: confirm_and_record_def split: prod.splits sum.splits option.splits)









subsection \<open>Confirmation and the write\<close>

lemma confirmation_ok:
  "rpc_confirmTransaction w g = Inr None \<Longrightarrow> confirmation w g = Inr None"
  by (simp add: confirmation_def)

lemma confirmation_failed:
  assumes "rpc_confirmTransaction w g \<noteq> Inr None"
    and "rpc_confirmTransaction w g \<noteq> Inl NullOrUndefined"
  shows "\<exists>e. confirmation w g = Inr (Some e)"
  using assms
  by (auto simp: confirmation_def message_of_def split: sum.splits option.splits thrown.splits)

lemma confirm_and_record_failed:
  assumes "confirmation w g = Inr (Some e)"
  shows "calls (snd (confirm_and_record cfg w ep uid amt sender g s)) =
           calls s @ [Confirm g,
                      FindOneAndUpdate (paymentData_of cfg uid g amt sender ep Failed None)]"
  using assms
  by (auto simp: confirm_and_record_def confirmTransaction_def createPaymentRecord_def Let_def
      split: sum.splits option.splits)

lemma confirm_and_record_confirmed_calls:
  assumes "rpc_confirmTransaction w g = Inr None"
    and "transferVerification cfg w g = Inr (oc, bt, sl)"
  shows "calls (snd (confirm_and_record cfg w ep uid amt sender g s)) =
           calls s @ [Confirm g, GetTransaction g,
                      FindOneAndUpdate (paymentData_of cfg uid g oc sender ep Confirmed
                        (Some (bt, sl, now w)))]"
  using assms
  by (auto simp: confirm_and_record_def confirmTransaction_def confirmation_ok
      createPaymentRecord_def Let_def verifyOnChainTransfer_def split: option.splits)

lemma confirm_and_record_confirmed:
  assumes "rpc_confirmTransaction w g = Inr None"
    and "transferVerification cfg w g = Inr (oc, bt, sl)"
    and "findOneAndUpdate_fault w = None"
  shows "fst (confirm_and_record cfg w ep uid amt sender g s) =
           Inr \<lparr>success = True,
                payment = Some (fst (upsert (paymentData_of cfg uid g oc sender ep Confirmed
                                       (Some (bt, sl, now w))) (payments s))),
                message = Some ''Payment verified and confirmed'', error = None\<rparr>"
    and "payments (snd (confirm_and_record cfg w ep uid amt sender g s)) =
           snd (upsert (paymentData_of cfg uid g oc sender ep Confirmed
                  (Some (bt, sl, now w))) (payments s))"
  using assms
  by (auto simp: confirm_and_record_def confirmTransaction_def confirmation_ok
      createPaymentRecord_def Let_def verifyOnChainTransfer_def)

lemma upsert_fields:
  "transactionSignature (fst (upsert pd db)) = pd_transactionSignature pd"
  "status (fst (upsert pd db)) = pd_status pd"
  "amount (fst (upsert pd db)) = pd_amount pd"
  "senderWallet (fst (upsert pd db)) = pd_senderWallet pd"
  by (induction db) (auto simp: new_document_def apply_update_def)

lemma upsert_stored: "fst (upsert pd db) \<in> set (snd (upsert pd db))"
  by (induction db) auto

lemma paymentData_of_fields [simp]:
  "pd_transactionSignature (paymentData_of cfg uid g amt sender ep st ch) = g"
  "pd_status (paymentData_of cfg uid g amt sender ep st ch) = st"
  "pd_amount (paymentData_of cfg uid g amt sender ep st ch) = amt"
  "pd_senderWallet (paymentData_of cfg uid g amt sender ep st ch) = sender"
  by (simp_all add: paymentData_of_def)

lemma reaches_confirmation:
  assumes "decode w blob = Inr t" and "first_signature t = Some sg"
    and "findOne_fault w = None" and "lookup_passes (payments s) (base64 sg)"
    and "validateTransactionInstructions cfg t = Inr (amt, sender)"
    and "rpc_simulateTransaction w t = Inr None"
    and "txSignature_of w blob t = Inr g"
  shows "verifyPayment_try cfg w blob ep uid s =
           confirm_and_record cfg w ep uid amt sender g
             (emit SendRaw (emit Simulate (emit (FindOne (base64 sg)) s)))"
  using try_reaches_validation [OF assms(1-4)]
    validate_and_submit_reaches_confirmation [OF assms(5-7)]
  by simp

subsection \<open>A transfer instruction with fewer than two account keys\<close>

text \<open>
  C10. The specification says: when the first token-program instruction with leading byte
  3 has fewer than two account keys and its decoded amount meets the minimum, the validator
  accepts it with a null sender, so the pipeline proceeds and attempts to persist a record
  with a null sender. The validator does so; the pipeline proceeds only past its other
  steps. \<open>tx_one_key_unsigned\<close> validates with a null sender, and the call on it ends at
  step 2, before any external call.
\<close>

theorem unsigned_one_key_transfer_attempts_no_write:
  "validateTransactionInstructions cfgA tx_one_key_unsigned = Inr (100000, None)
   \<and> verifyPayment cfgA (world_fresh\<lparr>decode := (\<lambda>b. Inr tx_one_key_unsigned)\<rparr>) ''txK''
        ''/api/analyze'' None store0 =
     (Inr \<lparr>success = False, payment = None, message = None, error = Some InvalidSignature\<rparr>,
      store0)"
  by (simp add: verifyPayment_def verifyPayment_try_def first_signature_def world_fresh_def
      tx_one_key_unsigned_def tx_one_key_def validateTransactionInstructions_def transferA_def
      is_transfer_def TOKEN_PROGRAM_ID_def readBigUInt64LE_def le_nat_def Number_def
      round53_def cfgA_def senderTokenAccount_def)

text \<open>
  C10, amended. When the first token-program instruction with leading byte 3 has fewer
  than two account keys and its decoded amount meets the minimum, the validator accepts it
  with a null sender. Once the call has passed the signature check, the lookup, the
  simulation and the submission, it hands a record with a null sender to the database: as
  failed when the node reports the transaction as failed or the confirmation call throws
  anything but \<^verbatim>\<open>null\<close> or \<^verbatim>\<open>undefined\<close>, and as confirmed when the confirmation
  succeeds and the transfer is verified on chain; the confirmed document it then returns
  and stores, the write succeeding, has a null sender.
\<close>

theorem transfer_with_fewer_than_two_keys_has_null_sender:
  assumes "find is_transfer (instructions t) = Some i"
    and "length (keys i) < 2"
    and "readBigUInt64LE (data i) 1 = Some n"
    and "requiredAmount cfg \<le> Number (int n)"
  shows "validateTransactionInstructions cfg t = Inr (Number (int n), None)
    \<and> (decode w blob = Inr t \<and> first_signature t = Some sg \<and> findOne_fault w = None \<and>
        lookup_passes (payments s) (base64 sg) \<and> rpc_simulateTransaction w t = Inr None \<and>
        txSignature_of w blob t = Inr g \<longrightarrow>
          (rpc_confirmTransaction w g \<noteq> Inr None \<and>
           rpc_confirmTransaction w g \<noteq> Inl NullOrUndefined \<longrightarrow>
             calls (snd (verifyPayment cfg w blob ep uid s)) =
               calls s @ [FindOne (base64 sg), Simulate, SendRaw, Confirm g,
                 FindOneAndUpdate (paymentData_of cfg uid g (Number (int n)) None ep Failed None)])
        \<and> (rpc_confirmTransaction w g = Inr None \<and>
            transferVerification cfg w g = Inr (oc, bt, sl) \<longrightarrow>
             calls (snd (verifyPayment cfg w blob ep uid s)) =
               calls s @ [FindOne (base64 sg), Simulate, SendRaw, Confirm g, GetTransaction g,
                 FindOneAndUpdate (paymentData_of cfg uid g oc None ep Confirmed
                   (Some (bt, sl, now w)))]
             \<and> (findOneAndUpdate_fault w = None \<longrightarrow>
                  (\<exists>p. fst (verifyPayment cfg w blob ep uid s) =
                         Inr \<lparr>success = True, payment = Some p,
                              message = Some ''Payment verified and confirmed'', error = None\<rparr>
                       \<and> senderWallet p = None
                       \<and> p \<in> set (payments (snd (verifyPayment cfg w blob ep uid s)))))))"
proof -
  have v: "validateTransactionInstructions cfg t = Inr (Number (int n), None)"
    using assms by (rule validate_null_sender)
  {
    assume reach: "decode w blob = Inr t" "first_signature t = Some sg" "findOne_fault w = None"
      "lookup_passes (payments s) (base64 sg)" "rpc_simulateTransaction w t = Inr None"
      "txSignature_of w blob t = Inr g"
    let ?s3 = "emit SendRaw (emit Simulate (emit (FindOne (base64 sg)) s))"
    have run: "verifyPayment_try cfg w blob ep uid s =
                 confirm_and_record cfg w ep uid (Number (int n)) None g ?s3"
      using reach v by (simp add: reaches_confirmation)
    have failed: "calls (snd (verifyPayment cfg w blob ep uid s)) =
               calls s @ [FindOne (base64 sg), Simulate, SendRaw, Confirm g,
                 FindOneAndUpdate (paymentData_of cfg uid g (Number (int n)) None ep Failed None)]"
      if "rpc_confirmTransaction w g \<noteq> Inr None"
        "rpc_confirmTransaction w g \<noteq> Inl NullOrUndefined"
    proof -
      from that obtain e where "confirmation w g = Inr (Some e)"
        using confirmation_failed by blast
      then show ?thesis
        by (simp add: snd_verifyPayment run confirm_and_record_failed)
    qed
    have confirmed: "calls (snd (verifyPayment cfg w blob ep uid s)) =
               calls s @ [FindOne (base64 sg), Simulate, SendRaw, Confirm g, GetTransaction g,
                 FindOneAndUpdate (paymentData_of cfg uid g oc None ep Confirmed
                   (Some (bt, sl, now w)))]"
      if "rpc_confirmTransaction w g = Inr None" "transferVerification cfg w g = Inr (oc, bt, sl)"
      using that by (simp add: snd_verifyPayment run confirm_and_record_confirmed_calls)
    have stored: "\<exists>p. fst (verifyPayment cfg w blob ep uid s) =
                         Inr \<lparr>success = True, payment = Some p,
                              message = Some ''Payment verified and confirmed'', error = None\<rparr>
                       \<and> senderWallet p = None
                       \<and> p \<in> set (payments (snd (verifyPayment cfg w blob ep uid s)))"
      if c: "rpc_confirmTransaction w g = Inr None"
        "transferVerification cfg w g = Inr (oc, bt, sl)" "findOneAndUpdate_fault w = None"
    proof -
      let ?pd = "paymentData_of cfg uid g oc None ep Confirmed (Some (bt, sl, now w))"
      let ?p = "fst (upsert ?pd (payments s))"
      have "fst (verifyPayment cfg w blob ep uid s) =
              Inr \<lparr>success = True, payment = Some ?p,
                   message = Some ''Payment verified and confirmed'', error = None\<rparr>"
        using confirm_and_record_confirmed(1) [OF c, of ep uid "Number (int n)" None ?s3]
        by (simp add: verifyPayment_returned run)
      moreover have "senderWallet ?p = None"
        by (simp add: upsert_fields)
      moreover have "?p \<in> set (payments (snd (verifyPayment cfg w blob ep uid s)))"
        using confirm_and_record_confirmed(2) [OF c, of ep uid "Number (int n)" None ?s3]
        by (simp add: snd_verifyPayment run upsert_stored)
      ultimately show ?thesis by blast
    qed
    note failed confirmed stored
  }
  with v show ?thesis by blast
qed

theorem transfer_with_fewer_than_two_keys_has_null_sender_witness:
  "validateTransactionInstructions cfgA tx_one_key = Inr (100000, None)
   \<and> calls (snd (verifyPayment cfgA (world_fresh\<lparr>decode := (\<lambda>b. Inr tx_one_key)\<rparr>) ''txK''
        ''/api/analyze'' None store0)) =
       [FindOne (base64 sigA), Simulate, SendRaw, Confirm (bs58_encode sigA),
        GetTransaction (bs58_encode sigA),
        FindOneAndUpdate (paymentData_of cfgA None (bs58_encode sigA) 100000 None
          ''/api/analyze'' Confirmed (Some (Some 1700000000, 42, 1700000001)))]
   \<and> (\<exists>p. fst (verifyPayment cfgA (world_fresh\<lparr>decode := (\<lambda>b. Inr tx_one_key)\<rparr>) ''txK''
              ''/api/analyze'' None store0) =
            Inr \<lparr>success = True, payment = Some p,
                 message = Some ''Payment verified and confirmed'', error = None\<rparr>
          \<and> senderWallet p = None
          \<and> p \<in> set (payments (snd (verifyPayment cfgA
                (world_fresh\<lparr>decode := (\<lambda>b. Inr tx_one_key)\<rparr>) ''txK''
                ''/api/analyze'' None store0))))"
  using transfer_with_fewer_than_two_keys_has_null_sender
    [where t = tx_one_key and i = "transferA\<lparr>keys := [''SrcAcct'']\<rparr>" and n = 100000
       and cfg = cfgA and w = "world_fresh\<lparr>decode := (\<lambda>b. Inr tx_one_key)\<rparr>"
       and blob = "''txK''" and sg = sigA and s = store0 and g = "bs58_encode sigA"
       and ep = "''/api/analyze''" and uid = None
       and oc = 100000 and bt = "Some 1700000000" and sl = 42]
  by (simp add: world_fresh_def tx_one_key_def transferA_def is_transfer_def
      TOKEN_PROGRAM_ID_def readBigUInt64LE_def le_nat_def Number_def round53_def
      store0_def first_signature_def lookup_passes_def txSignature_of_def
      transferVerification_def parse_detailsA matches_payment_def cfgA_fields detailsA_fields)

subsection \<open>What the validator reads\<close>

lemma le_nat_sum: "le_nat xs = (\<Sum>k < length xs. unat (xs ! k) * 256 ^ k)"
proof (induction xs)
  case Nil
  show ?case by (simp add: le_nat_def)
next
  case (Cons x xs)
  have "le_nat (x # xs) = unat x + 256 * le_nat xs"
    by (simp add: le_nat_def)
  also have "\<dots> = unat x + (\<Sum>k < length xs. unat (xs ! k) * 256 ^ Suc k)"
    by (simp add: Cons.IH sum_distrib_left mult.assoc mult.left_commute)
  also have "\<dots> = (\<Sum>k < length (x # xs). unat ((x # xs) ! k) * 256 ^ k)"
    by (simp del: sum.lessThan_Suc add: sum.lessThan_Suc_shift)
  finally show ?case .
qed

lemma read_amount:
  "readBigUInt64LE d 1 = (if length d < 9 then None else Some (u64_le_at1 d))"
proof (cases "length d < 9")
  case True
  then show ?thesis by (simp add: readBigUInt64LE_def)
next
  case False
  then have len: "length (take 8 (drop 1 d)) = 8" by simp
  have "le_nat (take 8 (drop 1 d)) = (\<Sum>k < 8. unat (take 8 (drop 1 d) ! k) * 256 ^ k)"
    using le_nat_sum [of "take 8 (drop 1 d)"] len by simp
  also have "\<dots> = (\<Sum>k < 8. unat (d ! (k + 1)) * 256 ^ k)"
    using False by (intro sum.cong) (auto simp: add.commute)
  finally show ?thesis
    using False by (simp add: readBigUInt64LE_def u64_le_at1_def)
qed

lemma read_amount_Suc:
  "readBigUInt64LE d (Suc 0) = (if length d < 9 then None else Some (u64_le_at1 d))"
  using read_amount [of d] by simp

lemma hd_is_first: "2 \<le> length xs \<Longrightarrow> hd xs = xs ! 0"
  by (cases xs) auto

lemma find_as_filter:
  "find P xs = (case filter P xs of [] \<Rightarrow> None | x # others \<Rightarrow> Some x)"
  by (induction xs) auto

text \<open>
  C8. The specification says: the validator locates the token-transfer instruction, rejects when there
  is none, decodes the amount as the little-endian unsigned integer of the eight bytes after
  the first, and takes the source account from the first account key. The last part fails
  for \<open>tx_one_key\<close>: its transfer instruction has the source as its only account key, and
  the validator returns a null sender.
\<close>

theorem one_key_transfer_validates_with_null_sender:
  "validateTransactionInstructions cfgA tx_one_key = Inr (100000, None)
   \<and> map keys (instructions tx_one_key) = [[''SrcAcct'']]"
  by (simp add: validateTransactionInstructions_def tx_one_key_def transferA_def is_transfer_def
      TOKEN_PROGRAM_ID_def readBigUInt64LE_def le_nat_def Number_def round53_def cfgA_def
      senderTokenAccount_def)

text \<open>
  C8, amended. The validator decides on the first instruction of the token program whose
  leading data byte is 3, whatever follows it. It rejects when there is none, and when that
  instruction has fewer than nine data bytes. Otherwise the amount is the double nearest to
  the little-endian unsigned integer of data bytes 1 to 8 (that integer itself below
  \<open>2 ^ 53\<close>), the transaction is rejected when the amount is below the minimum, and the
  sender is the first account key when the instruction has at least two keys and null
  otherwise.
\<close>

theorem validator_reads_first_transfer_instruction:
  "validateTransactionInstructions cfg t =
     (case filter is_transfer (instructions t) of
        [] \<Rightarrow> Inl (if instructions t = [] then NoInstructions else NoTransferInstruction)
      | i # others \<Rightarrow>
          if length (data i) < 9 then Inl ValidationFailed
          else if Number (int (u64_le_at1 (data i))) < requiredAmount cfg
          then Inl (InsufficientPayment (requiredAmount cfg) (Number (int (u64_le_at1 (data i)))))
          else Inr (Number (int (u64_le_at1 (data i))),
                    if 2 \<le> length (keys i) then Some (keys i ! 0) else None))
   \<and> (u64_le_at1 d < 2 ^ 53 \<longrightarrow> Number (int (u64_le_at1 d)) = int (u64_le_at1 d))"
proof
  show "validateTransactionInstructions cfg t =
     (case filter is_transfer (instructions t) of
        [] \<Rightarrow> Inl (if instructions t = [] then NoInstructions else NoTransferInstruction)
      | i # others \<Rightarrow>
          if length (data i) < 9 then Inl ValidationFailed
          else if Number (int (u64_le_at1 (data i))) < requiredAmount cfg
          then Inl (InsufficientPayment (requiredAmount cfg) (Number (int (u64_le_at1 (data i)))))
          else Inr (Number (int (u64_le_at1 (data i))),
                    if 2 \<le> length (keys i) then Some (keys i ! 0) else None))"
    by (auto simp: validateTransactionInstructions_def find_as_filter read_amount_Suc
        senderTokenAccount_def hd_is_first split: list.splits)
next
  show "u64_le_at1 d < 2 ^ 53 \<longrightarrow> Number (int (u64_le_at1 d)) = int (u64_le_at1 d)"
    by (simp add: Number_exact)
qed

theorem validator_reads_first_transfer_instruction_witness:
  "validateTransactionInstructions cfgA txA = Inr (100000, Some ''SrcAcct'')
   \<and> u64_le_at1 (data transferA) = 100000"
  using validator_reads_first_transfer_instruction [of cfgA txA "data transferA"]
  by (simp add: txA_fields transferA_def is_transfer_def TOKEN_PROGRAM_ID_def u64_le_at1_def
      cfgA_fields Number_exact lessThan_nat_numeral lessThan_Suc)


subsection \<open>A submission the node has already processed\<close>

lemma upsert_only_record:
  "distinct (map transactionSignature db) \<Longrightarrow>
     filter (\<lambda>q. transactionSignature q = pd_transactionSignature pd) (snd (upsert pd db)) =
       [fst (upsert pd db)]"
proof (induction db)
  case Nil
  show ?case by (simp add: new_document_def)
next
  case (Cons p ps)
  show ?case
  proof (cases "transactionSignature p = pd_transactionSignature pd")
    case True
    with Cons.prems have "\<forall>q \<in> set ps. transactionSignature q \<noteq> pd_transactionSignature pd"
      by (auto simp: image_iff)
    then have "filter (\<lambda>q. transactionSignature q = pd_transactionSignature pd) ps = []"
      by (simp add: filter_empty_conv)
    with True show ?thesis by (simp add: apply_update_def)
  next
    case False
    with Cons show ?thesis by simp
  qed
qed

lemma upsert_keeps_keys_distinct:
  "distinct (map transactionSignature db) \<Longrightarrow>
     distinct (map transactionSignature (snd (upsert pd db)))"
proof (induction db)
  case Nil
  show ?case by simp
next
  case (Cons p ps)
  have keys: "transactionSignature ` set (snd (upsert pd qs)) =
                insert (pd_transactionSignature pd) (transactionSignature ` set qs)" for qs
    by (induction qs) (auto simp: new_document_def apply_update_def)
  show ?case
  proof (cases "transactionSignature p = pd_transactionSignature pd")
    case True
    with Cons.prems show ?thesis by (simp add: apply_update_def)
  next
    case False
    with Cons keys [of ps] show ?thesis by auto
  qed
qed

text \<open>
  Every write is an upsert under the signature, so a call never leaves two records with
  one signature.
\<close>

lemma confirm_and_record_payments:
  "payments (snd (confirm_and_record cfg w ep uid amt sender g s)) = payments s \<or>
   (\<exists>pd. payments (snd (confirm_and_record cfg w ep uid amt sender g s)) =
           snd (upsert pd (payments s)))"
  by (auto simp: confirm_and_record_def confirmTransaction_def createPaymentRecord_def Let_def
      verifyOnChainTransfer_def split: sum.splits option.splits prod.splits)

lemma verifyPayment_payments:
  "payments (snd (verifyPayment cfg w blob ep uid s)) = payments s \<or>
   (\<exists>pd. payments (snd (verifyPayment cfg w blob ep uid s)) = snd (upsert pd (payments s)))"
proof -
  have written: "payments (snd (confirm_and_record cfg w ep uid a b g
                   (emit SendRaw (emit Simulate (emit (FindOne k) s))))) = payments s \<or>
     (\<exists>pd. payments (snd (confirm_and_record cfg w ep uid a b g
                   (emit SendRaw (emit Simulate (emit (FindOne k) s))))) =
             snd (upsert pd (payments s)))" for a b g k
    using confirm_and_record_payments
      [of cfg w ep uid a b g "emit SendRaw (emit Simulate (emit (FindOne k) s))"]
    by simp
  have step: "payments (snd (validate_and_submit cfg w blob ep uid t (emit (FindOne k) s))) =
       payments s \<or>
     (\<exists>pd. payments (snd (validate_and_submit cfg w blob ep uid t (emit (FindOne k) s))) =
             snd (upsert pd (payments s)))" for t k
    using written [of _ _ _ k]
    by (auto simp: validate_and_submit_def simulateTransaction_def submit_def
        split: sum.splits option.splits prod.splits)
  show ?thesis
    using step
    by (auto simp: snd_verifyPayment verifyPayment_try_def Payment_findOne_def
        split: sum.splits option.splits prod.splits)
qed

lemma verifyPayment_keeps_signatures_distinct:
  assumes "distinct (map transactionSignature (payments s))"
  shows "distinct (map transactionSignature (payments (snd (verifyPayment cfg w blob ep uid s))))"
  using verifyPayment_payments [of cfg w blob ep uid s] assms upsert_keeps_keys_distinct
  by auto

lemma recovered_signature:
  assumes "first_signature t = Some sg"
    and "rpc_sendRawTransaction w blob = Inl (ErrorObject m)" and "already_processed m"
  shows "txSignature_of w blob t = Inr (bs58_encode sg)"
  using assms first_signature_Some [OF assms(1)] by (auto simp: txSignature_of_def)

lemma confirm_and_record_errors:
  "confirm_and_record cfg w ep uid amt sender g s = (Inl x, s') \<Longrightarrow>
     x \<noteq> ErrorObject (SubmissionFailed m')"
  by (auto simp: confirm_and_record_def confirmTransaction_def confirmation_def
      createPaymentRecord_def Let_def verifyOnChainTransfer_def transferVerification_def
      library_error_def message_of_def
      split: sum.splits option.splits prod.splits if_splits thrown.splits)

lemma confirm_and_record_first_call:
  "\<exists>rest. calls (snd (confirm_and_record cfg w ep uid amt sender g s)) =
           calls s @ Confirm g # rest"
  by (auto simp: confirm_and_record_def confirmTransaction_def createPaymentRecord_def Let_def
      verifyOnChainTransfer_def split: sum.splits option.splits prod.splits)

lemma confirm_and_record_second_call:
  "rpc_confirmTransaction w g = Inr None \<Longrightarrow>
     \<exists>rest. calls (snd (confirm_and_record cfg w ep uid amt sender g s)) =
             calls s @ Confirm g # GetTransaction g # rest"
  by (auto simp: confirm_and_record_def confirmTransaction_def confirmation_ok
      createPaymentRecord_def Let_def verifyOnChainTransfer_def
      split: sum.splits option.splits prod.splits)

text \<open>
  C5. The specification says: whenever the submission fails as already processed, the call does not
  return a submission failure, recovers the signature, goes on to the confirmation and the
  check of the transfer, and ends with exactly one confirmed record. The end fails when
  the processed transaction is not confirmed: with \<open>world_landed_failed\<close> the node
  reports that its execution failed, and the call stores a failed record.
\<close>

theorem already_processed_but_failed_on_chain:
  "verifyPayment cfgA world_landed_failed ''txA'' ''/api/analyze'' None store0 =
     (Inr \<lparr>success = False, payment = None, message = None,
           error = Some (TransactionFailed ''InstructionError'')\<rparr>,
      \<lparr>payments = [failedA],
       calls = [FindOne (base64 sigA), Simulate, SendRaw, Confirm (bs58_encode sigA),
                FindOneAndUpdate (paymentData_of cfgA None (bs58_encode sigA) 100000
                  (Some ''SrcAcct'') ''/api/analyze'' Failed None)]\<rparr>)"
  by (simp add: pipeline_defs example_worlds exampleA failedA_def)

text \<open>
  C5, amended. Whenever a call reaches the submission and the node refuses it as already
  processed, the call never returns a submission failure: it takes the base-58 text of the
  transaction's first signature and asks the node to confirm it, and when that succeeds it
  fetches the transaction. When moreover the transfer is verified on chain and the write
  succeeds, the call returns the confirmed record, and that record is the only one stored
  under the signature (the collection having had at most one record per signature).
\<close>

theorem already_processed_submission_is_recovered:
  assumes "decode w blob = Inr t" and "first_signature t = Some sg"
    and "findOne_fault w = None" and "lookup_passes (payments s) (base64 sg)"
    and "validateTransactionInstructions cfg t = Inr (amt, sender)"
    and "rpc_simulateTransaction w t = Inr None"
    and "rpc_sendRawTransaction w blob = Inl (ErrorObject m)" and "already_processed m"
  shows "(\<forall>r m'. fst (verifyPayment cfg w blob ep uid s) = Inr r \<longrightarrow>
             error r \<noteq> Some (SubmissionFailed m'))
    \<and> (\<exists>rest. calls (snd (verifyPayment cfg w blob ep uid s)) =
          calls s @ [FindOne (base64 sg), Simulate, SendRaw, Confirm (bs58_encode sg)] @ rest)
    \<and> (rpc_confirmTransaction w (bs58_encode sg) = Inr None \<longrightarrow>
         (\<exists>rest. calls (snd (verifyPayment cfg w blob ep uid s)) =
            calls s @ [FindOne (base64 sg), Simulate, SendRaw, Confirm (bs58_encode sg),
                       GetTransaction (bs58_encode sg)] @ rest))
    \<and> (rpc_confirmTransaction w (bs58_encode sg) = Inr None \<and>
        transferVerification cfg w (bs58_encode sg) = Inr (oc, bt, sl) \<and>
        findOneAndUpdate_fault w = None \<and> distinct (map transactionSignature (payments s)) \<longrightarrow>
         (\<exists>p. fst (verifyPayment cfg w blob ep uid s) =
                 Inr \<lparr>success = True, payment = Some p,
                      message = Some ''Payment verified and confirmed'', error = None\<rparr>
             \<and> status p = Confirmed \<and> amount p = oc
             \<and> filter (\<lambda>q. transactionSignature q = bs58_encode sg)
                  (payments (snd (verifyPayment cfg w blob ep uid s))) = [p]))"
proof -
  let ?g = "bs58_encode sg"
  let ?s3 = "emit SendRaw (emit Simulate (emit (FindOne (base64 sg)) s))"
  have g: "txSignature_of w blob t = Inr ?g"
    using assms(2,7,8) by (rule recovered_signature)
  have run: "verifyPayment_try cfg w blob ep uid s =
               confirm_and_record cfg w ep uid amt sender ?g ?s3"
    using assms(1-6) g by (rule reaches_confirmation)
  have no_submission_failure: "error r \<noteq> Some (SubmissionFailed m')"
    if r: "fst (verifyPayment cfg w blob ep uid s) = Inr r" for r m'
  proof (cases "confirm_and_record cfg w ep uid amt sender ?g ?s3")
    case (Pair out s')
    show ?thesis
    proof (cases out)
      case (Inl x)
      with Pair have "x \<noteq> ErrorObject (SubmissionFailed m')"
        using confirm_and_record_errors by blast
      with Pair Inl r show ?thesis
        by (cases x) (auto simp: verifyPayment_def run)
    next
      case (Inr r')
      with Pair have "error r' = None"
        using confirm_and_record_shape by blast
      with Pair Inr r show ?thesis by (auto simp: verifyPayment_def run)
    qed
  qed
  have confirm_called: "\<exists>rest. calls (snd (verifyPayment cfg w blob ep uid s)) =
          calls s @ [FindOne (base64 sg), Simulate, SendRaw, Confirm ?g] @ rest"
    using confirm_and_record_first_call [of cfg w ep uid amt sender ?g ?s3]
    by (auto simp: snd_verifyPayment run)
  have fetch_called: "\<exists>rest. calls (snd (verifyPayment cfg w blob ep uid s)) =
            calls s @ [FindOne (base64 sg), Simulate, SendRaw, Confirm ?g,
                       GetTransaction ?g] @ rest"
    if "rpc_confirmTransaction w ?g = Inr None"
    using confirm_and_record_second_call [OF that, of cfg ep uid amt sender ?s3]
    by (auto simp: snd_verifyPayment run)
  have one_record: "\<exists>p. fst (verifyPayment cfg w blob ep uid s) =
                 Inr \<lparr>success = True, payment = Some p,
                      message = Some ''Payment verified and confirmed'', error = None\<rparr>
             \<and> status p = Confirmed \<and> amount p = oc
             \<and> filter (\<lambda>q. transactionSignature q = ?g)
                  (payments (snd (verifyPayment cfg w blob ep uid s))) = [p]"
    if c: "rpc_confirmTransaction w ?g = Inr None"
      "transferVerification cfg w ?g = Inr (oc, bt, sl)" "findOneAndUpdate_fault w = None"
      and d: "distinct (map transactionSignature (payments s))"
  proof -
    let ?pd = "paymentData_of cfg uid ?g oc sender ep Confirmed (Some (bt, sl, now w))"
    let ?p = "fst (upsert ?pd (payments s))"
    have "fst (verifyPayment cfg w blob ep uid s) =
            Inr \<lparr>success = True, payment = Some ?p,
                 message = Some ''Payment verified and confirmed'', error = None\<rparr>"
      using confirm_and_record_confirmed(1) [OF c, of ep uid amt sender ?s3]
      by (simp add: verifyPayment_returned run)
    moreover have "status ?p = Confirmed" "amount ?p = oc"
      by (simp_all add: upsert_fields)
    moreover have "filter (\<lambda>q. transactionSignature q = ?g)
                     (payments (snd (verifyPayment cfg w blob ep uid s))) = [?p]"
      using confirm_and_record_confirmed(2) [OF c, of ep uid amt sender ?s3]
        upsert_only_record [OF d, of ?pd]
      by (simp add: snd_verifyPayment run)
    ultimately show ?thesis by blast
  qed
  from no_submission_failure confirm_called fetch_called one_record show ?thesis
    by blast
qed

theorem already_processed_submission_is_recovered_witness:
  "(\<exists>rest. calls (snd (verifyPayment cfgA world_landed ''txA'' ''/api/analyze'' None store0)) =
       [FindOne (base64 sigA), Simulate, SendRaw, Confirm (bs58_encode sigA),
        GetTransaction (bs58_encode sigA)] @ rest)
   \<and> (\<exists>p. fst (verifyPayment cfgA world_landed ''txA'' ''/api/analyze'' None store0) =
            Inr \<lparr>success = True, payment = Some p,
                 message = Some ''Payment verified and confirmed'', error = None\<rparr>
        \<and> status p = Confirmed \<and> amount p = 100000
        \<and> filter (\<lambda>q. transactionSignature q = bs58_encode sigA)
             (payments (snd (verifyPayment cfgA world_landed ''txA'' ''/api/analyze'' None
                store0))) = [p])"
  using already_processed_submission_is_recovered
    [where w = world_landed and blob = "''txA''" and t = txA and sg = sigA and s = store0
       and cfg = cfgA and amt = 100000 and sender = "Some ''SrcAcct''"
       and m = "''Transaction simulation failed: This transaction has already been processed''"
       and oc = 100000 and bt = "Some 1700000000" and sl = 42
       and ep = "''/api/analyze''" and uid = None]
  by (simp add: example_worlds exampleA first_signature_def lookup_passes_def
      already_processed_def transferVerification_def matches_payment_def)


subsection \<open>The account map\<close>




















lemma Number_zero [simp]: "Number 0 = 0"
  by (simp add: Number_def round53_def)











subsection \<open>The amount of a confirmed payment\<close>


text \<open>
  The balance entries must name their owners. In \<open>detailsC\<close> the payer's account comes
  first and has no owner: the pass over the account map stops there, no transfer is
  parsed, and the payment is rejected although the recipient account rose by the minimum.
\<close>

lemma ownerless_entry_hides_the_transfer:
  "verifyPayment cfgA (world_fresh\<lparr>rpc_getTransaction := (\<lambda>g. Inr (Some detailsC))\<rparr>) ''txA''
     ''/api/analyze'' None store0 =
     (Inr \<lparr>success = False, payment = None, message = None, error = Some NoMatchingTransfer\<rparr>,
      \<lparr>payments = [],
       calls = [FindOne (base64 sigA), Simulate, SendRaw, Confirm (bs58_encode sigA),
                GetTransaction (bs58_encode sigA)]\<rparr>)
   \<and> parseTokenTransfers cfgA detailsC = []"
  by (simp add: pipeline_defs example_worlds exampleA detailsC_fields parse_detailsC)







end
